theory Spec2Isabelle
  imports Complex_Main
begin

section \<open>Values of the program\<close>

text \<open>
  The exporter (\<^verbatim>\<open>src/exporter.py\<close>) runs the Speedtest CLI, decodes its JSON output
  and publishes the measurement in six labelled Prometheus instruments. The model
  follows the Python source function by function.

  A decoded JSON document is a value of \<open>json\<close>, as \<^verbatim>\<open>json.loads\<close> returns it:
  \<^verbatim>\<open>None\<close>, \<^verbatim>\<open>bool\<close>, \<^verbatim>\<open>int\<close> (unbounded), \<^verbatim>\<open>float\<close>, \<^verbatim>\<open>str\<close>, \<^verbatim>\<open>list\<close> and \<^verbatim>\<open>dict\<close>. A dict is
  an association list read with \<open>map_of\<close> (the decoder keeps one entry per key). A float
  is represented by the real number it denotes; NaN and the infinities have no
  counterpart. The arithmetic that Python does on floats (\<^verbatim>\<open>*\<close>, \<^verbatim>\<open>**\<close>, \<^verbatim>\<open>round\<close>) and the
  text that \<^verbatim>\<open>str\<close> gives for a float belong to the host, as the decoder does. A string
  is the list of the bytes of its UTF-8 encoding. The line that
  \<^verbatim>\<open>logging.info(result)\<close> writes is an event that carries the result. Requests are
  handled one after the other; the worker threads of the WSGI server are not modelled.
\<close>

datatype json =
    JNull
  | JBool bool
  | JInt int
  | JFloat real
  | JStr string
  | JList "json list"
  | JDict "(string \<times> json) list"

text \<open>The exceptions that the modelled code can raise.\<close>

datatype error = KeyError string | TypeError | ValueError | OverflowError | OSError

text \<open>\<^verbatim>\<open>class Result\<close>: an object holding the payload in \<^verbatim>\<open>_data\<close>.\<close>

datatype Result = Result (data: json)

text \<open>
  What the program writes: \<^verbatim>\<open>print\<close> goes to standard output, \<^verbatim>\<open>logging.error\<close> and
  \<^verbatim>\<open>logging.info\<close> to the log. The text that \<^verbatim>\<open>str\<close> makes of a value is not modelled: an
  event carries the values that are printed. Standard output is taken to accept what
  is printed.
\<close>

datatype event =
    Print_text string
  | Print_value json
  | Print_log json json
  | Log_error string
  | Log_info Result

text \<open>
  How \<^verbatim>\<open>subprocess.check_output(cmd, timeout=timeout)\<close> ends: exit status 0 with the
  captured output, \<^verbatim>\<open>CalledProcessError\<close> (another exit status) with the captured output,
  \<^verbatim>\<open>TimeoutExpired\<close>, or any other exception (an \<^verbatim>\<open>OSError\<close> when the process cannot be
  started, an \<^verbatim>\<open>OverflowError\<close> for a timeout that is out of range).
\<close>

datatype proc_outcome =
    Completed string
  | CalledProcessError string
  | TimeoutExpired
  | Raised error

text \<open>
  The surroundings of the program, which the source reaches through library calls:
  \<^verbatim>\<open>json.loads\<close> (\<open>None\<close> is its \<^verbatim>\<open>ValueError\<close>), the built-ins \<^verbatim>\<open>int\<close> and \<^verbatim>\<open>float\<close> on a
  string (\<open>None\<close> is their \<^verbatim>\<open>ValueError\<close>), the external process (its outcome may depend on
  how many invocations came before, on the command and on the timeout) and
  \<^verbatim>\<open>os.environ.get\<close>; the operations on floats: \<^verbatim>\<open>x ** y\<close>, \<^verbatim>\<open>x * y\<close>, \<^verbatim>\<open>round(x, n)\<close> and
  \<^verbatim>\<open>str(x)\<close>; whether \<^verbatim>\<open>Info.info\<close> of the installed \<^verbatim>\<open>prometheus_client\<close> refuses a record
  that holds \<^verbatim>\<open>None\<close> (later versions raise \<^verbatim>\<open>ValueError\<close>, and the source asks for no
  version); and the time zone, as the number of microseconds from \<^verbatim>\<open>datetime.min\<close> to
  \<^verbatim>\<open>datetime.fromtimestamp(0)\<close>.
\<close>

record host =
  json_loads :: "string \<Rightarrow> json option"
  int_of_str :: "string \<Rightarrow> int option"
  float_of_str :: "string \<Rightarrow> real option"
  check_output :: "nat \<Rightarrow> string list \<Rightarrow> int \<Rightarrow> proc_outcome"
  environ :: "string \<Rightarrow> string option"
  float_pow :: "real \<Rightarrow> real \<Rightarrow> real"
  float_mul :: "real \<Rightarrow> real \<Rightarrow> real"
  float_round :: "real \<Rightarrow> int \<Rightarrow> real"
  float_str :: "real \<Rightarrow> string"
  info_refuses_none :: bool
  local_epoch :: int

text \<open>
  The module's globals: the six instruments (a child per label value \<^verbatim>\<open>server_id\<close>),
  \<^verbatim>\<open>cache_seconds\<close> and \<^verbatim>\<open>cache_until\<close>; and what the process has written and run so far.
  A \<^verbatim>\<open>datetime\<close> is the number of microseconds since \<^verbatim>\<open>datetime.fromtimestamp(0)\<close>.
\<close>

record state =
  jitter :: "string \<Rightarrow> real option"
  ping :: "string \<Rightarrow> real option"
  download_speed :: "string \<Rightarrow> real option"
  upload_speed :: "string \<Rightarrow> real option"
  up :: "string \<Rightarrow> real option"
  info :: "string \<Rightarrow> (string \<times> json) list option"
  cache_seconds :: int
  cache_until :: int
  stdout :: "event list"
  logged :: "event list"
  invoked :: "(string list \<times> int) list"

type_synonym 'a outcome = "(error + 'a) \<times> state"

section \<open>Python operations on decoded values\<close>

text \<open>\<^verbatim>\<open>str(n)\<close> for an integer: its decimal digits.\<close>

fun str_nat :: "nat \<Rightarrow> string" where
  "str_nat n =
     (if n < 10 then [''0123456789'' ! n]
      else str_nat (n div 10) @ [''0123456789'' ! (n mod 10)])"

declare str_nat.simps [simp del]

definition str_int :: "int \<Rightarrow> string" where
  "str_int i = (if i < 0 then CHR ''-'' # str_nat (nat (- i)) else str_nat (nat i))"

fun has_prefix :: "string \<Rightarrow> string \<Rightarrow> bool" where
  "has_prefix [] ys = True"
| "has_prefix (x # xs) [] = False"
| "has_prefix (x # xs) (y # ys) = (x = y \<and> has_prefix xs ys)"

fun substring :: "string \<Rightarrow> string \<Rightarrow> bool" where
  "substring p [] = (p = [])"
| "substring p (y # ys) = (has_prefix p (y # ys) \<or> substring p ys)"

text \<open>
  \<^verbatim>\<open>k in d\<close> for a string \<open>k\<close>: a key of a dict, an element of a list, a substring of a
  string; any other value is not iterable.
\<close>

fun py_contains :: "string \<Rightarrow> json \<Rightarrow> error + bool" where
  "py_contains k (JDict kvs) = Inr (map_of kvs k \<noteq> None)"
| "py_contains k (JList xs) = Inr (JStr k \<in> set xs)"
| "py_contains k (JStr s) = Inr (substring k s)"
| "py_contains k JNull = Inl TypeError"
| "py_contains k (JBool b) = Inl TypeError"
| "py_contains k (JInt n) = Inl TypeError"
| "py_contains k (JFloat x) = Inl TypeError"

text \<open>
  \<^verbatim>\<open>d[k]\<close> for a string \<open>k\<close>: the entry of a dict or \<^verbatim>\<open>KeyError\<close>; a list and a string take
  no string index, and the other values take no index at all.
\<close>

fun py_getitem :: "json \<Rightarrow> string \<Rightarrow> error + json" where
  "py_getitem (JDict kvs) k =
     (case map_of kvs k of None \<Rightarrow> Inl (KeyError k) | Some v \<Rightarrow> Inr v)"
| "py_getitem JNull k = Inl TypeError"
| "py_getitem (JBool b) k = Inl TypeError"
| "py_getitem (JInt n) k = Inl TypeError"
| "py_getitem (JFloat x) k = Inl TypeError"
| "py_getitem (JStr s) k = Inl TypeError"
| "py_getitem (JList xs) k = Inl TypeError"

text \<open>\<^verbatim>\<open>int(v)\<close>: a float is truncated towards zero, a string is parsed.\<close>

fun py_int :: "host \<Rightarrow> json \<Rightarrow> error + int" where
  "py_int h (JInt n) = Inr n"
| "py_int h (JBool b) = Inr (if b then 1 else 0)"
| "py_int h (JFloat x) = Inr (if 0 \<le> x then \<lfloor>x\<rfloor> else \<lceil>x\<rceil>)"
| "py_int h (JStr s) = (case int_of_str h s of None \<Rightarrow> Inl ValueError | Some n \<Rightarrow> Inr n)"
| "py_int h JNull = Inl TypeError"
| "py_int h (JList xs) = Inl TypeError"
| "py_int h (JDict kvs) = Inl TypeError"

text \<open>
  \<^verbatim>\<open>float(n)\<close> for an integer: the double nearest to \<open>n\<close>, a tie going to the even
  significand of 53 bits, and \<^verbatim>\<open>OverflowError\<close> when that is beyond the largest double.
\<close>

fun bit_length :: "nat \<Rightarrow> nat" where
  "bit_length n = (if n = 0 then 0 else Suc (bit_length (n div 2)))"

declare bit_length.simps [simp del]

definition round_to_double :: "nat \<Rightarrow> nat" where
  "round_to_double n =
     (if bit_length n \<le> 53 then n
      else (let k = bit_length n - 53; q = n div 2 ^ k; r = n mod 2 ^ k
            in if 2 ^ k < 2 * r \<or> (2 * r = 2 ^ k \<and> odd q) then (q + 1) * 2 ^ k
               else q * 2 ^ k))"

definition float_of_int :: "int \<Rightarrow> error + real" where
  "float_of_int n =
     (let m = round_to_double (nat \<bar>n\<bar>)
      in if 2 ^ 1024 \<le> m then Inl OverflowError
         else Inr (if n < 0 then - real m else real m))"

text \<open>\<^verbatim>\<open>float(v)\<close>, which \<^verbatim>\<open>Gauge.set\<close> applies to its argument.\<close>

fun py_float :: "host \<Rightarrow> json \<Rightarrow> error + real" where
  "py_float h (JInt n) = float_of_int n"
| "py_float h (JBool b) = Inr (if b then 1 else 0)"
| "py_float h (JFloat x) = Inr x"
| "py_float h (JStr s) = (case float_of_str h s of None \<Rightarrow> Inl ValueError | Some x \<Rightarrow> Inr x)"
| "py_float h JNull = Inl TypeError"
| "py_float h (JList xs) = Inl TypeError"
| "py_float h (JDict kvs) = Inl TypeError"


text \<open>\<^verbatim>\<open>s.split(",")\<close>.\<close>

fun split_on :: "char \<Rightarrow> string \<Rightarrow> string list" where
  "split_on c [] = [[]]"
| "split_on c (x # xs) =
     (if x = c then [] # split_on c xs
      else (case split_on c xs of [] \<Rightarrow> [[x]] | w # ws \<Rightarrow> (x # w) # ws))"

text \<open>Sequencing of a step that may raise with what follows it.\<close>

definition and_then :: "error + 'a \<Rightarrow> ('a \<Rightarrow> error + 'b) \<Rightarrow> error + 'b" where
  "and_then r f = (case r of Inl e \<Rightarrow> Inl e | Inr x \<Rightarrow> f x)"

section \<open>The module's functions\<close>

text \<open>\<^verbatim>\<open>bytes_to_bits\<close>: \<^verbatim>\<open>bytes_per_sec * 8\<close>. On a string or a list, \<^verbatim>\<open>*\<close> repeats it.\<close>

fun bytes_to_bits :: "json \<Rightarrow> error + json" where
  "bytes_to_bits (JInt n) = Inr (JInt (n * 8))"
| "bytes_to_bits (JBool b) = Inr (JInt ((if b then 1 else 0) * 8))"
| "bytes_to_bits (JFloat x) = Inr (JFloat (x * 8))"
| "bytes_to_bits (JStr s) = Inr (JStr (concat (replicate 8 s)))"
| "bytes_to_bits (JList xs) = Inr (JList (concat (replicate 8 xs)))"
| "bytes_to_bits JNull = Inl TypeError"
| "bytes_to_bits (JDict kvs) = Inl TypeError"


text \<open>\<^verbatim>\<open>is_json\<close>: whether \<^verbatim>\<open>json.loads\<close> returns.\<close>

definition is_json :: "host \<Rightarrow> string \<Rightarrow> bool" where
  "is_json h myjson = (json_loads h myjson \<noteq> None)"

subsection \<open>\<^verbatim>\<open>class Result\<close>\<close>

text \<open>
  \<^verbatim>\<open>Result.__init__\<close> raises \<^verbatim>\<open>ValueError\<close> unless \<^verbatim>\<open>data["type"] == "result"\<close>; the
  subscript itself raises \<^verbatim>\<open>KeyError\<close> or \<^verbatim>\<open>TypeError\<close>.
\<close>

definition Result_init :: "json \<Rightarrow> error + Result" where
  "Result_init d =
     and_then (py_getitem d ''type'')
       (\<lambda>t. if t = JStr ''result'' then Inr (Result d) else Inl ValueError)"

text \<open>\<^verbatim>\<open>Result.parse\<close> catches the \<^verbatim>\<open>ValueError\<close> only.\<close>

definition Result_parse :: "json \<Rightarrow> error + Result option" where
  "Result_parse d =
     (case Result_init d of
        Inr r \<Rightarrow> Inr (Some r)
      | Inl ValueError \<Rightarrow> Inr None
      | Inl e \<Rightarrow> Inl e)"

definition field :: "Result \<Rightarrow> string \<Rightarrow> string \<Rightarrow> error + json" where
  "field r a b = and_then (py_getitem (data r) a) (\<lambda>d. py_getitem d b)"

definition Result_server_id :: "host \<Rightarrow> Result \<Rightarrow> error + int" where
  "Result_server_id h r = and_then (field r ''server'' ''id'') (py_int h)"

definition Result_server_name :: "Result \<Rightarrow> error + json" where
  "Result_server_name r = field r ''server'' ''name''"

definition Result_server_info :: "host \<Rightarrow> Result \<Rightarrow> error + (string \<times> json) list" where
  "Result_server_info h r =
     and_then (Result_server_id h r) (\<lambda>i.
     and_then (Result_server_name r) (\<lambda>n.
     and_then (field r ''server'' ''location'') (\<lambda>l.
     and_then (field r ''server'' ''country'') (\<lambda>c.
       Inr [(''id'', JStr (str_int i)), (''name'', n), (''location'', l), (''country'', c)]))))"

definition Result_latency :: "Result \<Rightarrow> error + json" where
  "Result_latency r = field r ''ping'' ''latency''"

definition Result_jitter :: "Result \<Rightarrow> error + json" where
  "Result_jitter r = field r ''ping'' ''jitter''"

definition Result_download_speed :: "Result \<Rightarrow> error + json" where
  "Result_download_speed r = and_then (field r ''download'' ''bandwidth'') bytes_to_bits"

definition Result_upload_speed :: "Result \<Rightarrow> error + json" where
  "Result_upload_speed r = and_then (field r ''upload'' ''bandwidth'') bytes_to_bits"

subsection \<open>Module initialisation\<close>

text \<open>
  \<^verbatim>\<open>cache_seconds = int(os.environ.get('SPEEDTEST_CACHE_FOR', 0))\<close> and
  \<^verbatim>\<open>cache_until = datetime.datetime.fromtimestamp(0)\<close>; no instrument has a child yet.
\<close>

definition initial :: "int \<Rightarrow> state" where
  "initial n =
     \<lparr>jitter = Map.empty, ping = Map.empty, download_speed = Map.empty,
      upload_speed = Map.empty, up = Map.empty, info = Map.empty,
      cache_seconds = n, cache_until = 0,
      stdout = [], logged = [], invoked = []\<rparr>"

definition module_init :: "host \<Rightarrow> error + state" where
  "module_init h =
     and_then
       (case environ h ''SPEEDTEST_CACHE_FOR'' of
          None \<Rightarrow> Inr 0
        | Some v \<Rightarrow> (case int_of_str h v of None \<Rightarrow> Inl ValueError | Some n \<Rightarrow> Inr n))
       (\<lambda>n. Inr (initial n))"

subsection \<open>\<^verbatim>\<open>execTest\<close>\<close>

text \<open>The command line; \<^verbatim>\<open>if server_id:\<close> holds for an integer other than 0.\<close>

definition build_cmd :: "int option \<Rightarrow> string list" where
  "build_cmd server_id =
     [''speedtest'', ''--format=json-pretty'', ''--progress=no'',
      ''--accept-license'', ''--accept-gdpr'']
     @ (case server_id of
          None \<Rightarrow> []
        | Some n \<Rightarrow> if n \<noteq> 0 then [''--server-id='' @ str_int n] else [])"

text \<open>\<^verbatim>\<open>int(os.environ.get("SPEEDTEST_TIMEOUT", 90))\<close>.\<close>

definition timeout_of :: "host \<Rightarrow> error + int" where
  "timeout_of h =
     (case environ h ''SPEEDTEST_TIMEOUT'' of
        None \<Rightarrow> Inr 90
      | Some v \<Rightarrow> (case int_of_str h v of None \<Rightarrow> Inl ValueError | Some n \<Rightarrow> Inr n))"

definition print :: "event \<Rightarrow> state \<Rightarrow> state" where
  "print e s = s\<lparr>stdout := stdout s @ [e]\<rparr>"

definition logging :: "event \<Rightarrow> state \<Rightarrow> state" where
  "logging e s = s\<lparr>logged := logged s @ [e]\<rparr>"

text \<open>
  The body of \<^verbatim>\<open>if data["type"] == "log":\<close>, which prints the timestamp and the
  message of the payload.
\<close>

definition print_log :: "json \<Rightarrow> state \<Rightarrow> unit outcome" where
  "print_log d s =
     (case py_getitem d ''timestamp'' of
        Inl e \<Rightarrow> (Inl e, s)
      | Inr ts \<Rightarrow>
          (case py_getitem d ''message'' of
             Inl e \<Rightarrow> (Inl e, s)
           | Inr msg \<Rightarrow> (Inr (), print (Print_log ts msg) s)))"

text \<open>
  The part of \<^verbatim>\<open>execTest\<close> that follows \<^verbatim>\<open>data = json.loads(output)\<close>: an
  \<^verbatim>\<open>error\<close> member ends the attempt; a payload of type \<^verbatim>\<open>log\<close> is printed; a payload
  of type \<^verbatim>\<open>result\<close> goes to \<^verbatim>\<open>Result.parse\<close>; anything else falls off the end of
  the function, which returns \<^verbatim>\<open>None\<close>.
\<close>

definition execTest_payload :: "json \<Rightarrow> state \<Rightarrow> Result option outcome" where
  "execTest_payload d s =
     (case py_contains ''error'' d of
        Inl e \<Rightarrow> (Inl e, s)
      | Inr True \<Rightarrow>
          (let s1 = print (Print_text ''Something went wrong'') s in
           case py_getitem d ''error'' of
             Inl e \<Rightarrow> (Inl e, s1)
           | Inr v \<Rightarrow> (Inr None, print (Print_value v) s1))
      | Inr False \<Rightarrow>
          (case py_contains ''type'' d of
             Inl e \<Rightarrow> (Inl e, s)
           | Inr False \<Rightarrow> (Inr None, s)
           | Inr True \<Rightarrow>
               (case py_getitem d ''type'' of
                  Inl e \<Rightarrow> (Inl e, s)
                | Inr t \<Rightarrow>
                    (case (if t = JStr ''log'' then print_log d s else (Inr (), s)) of
                       (Inl e, s1) \<Rightarrow> (Inl e, s1)
                     | (Inr u, s1) \<Rightarrow>
                         if t = JStr ''result''
                         then (case Result_parse d of
                                 Inl e \<Rightarrow> (Inl e, s1)
                               | Inr r \<Rightarrow> (Inr r, s1))
                         else (Inr None, s1)))))"

text \<open>The part of \<^verbatim>\<open>execTest\<close> from \<^verbatim>\<open>if is_json(output):\<close> on.\<close>

definition execTest_output :: "host \<Rightarrow> string \<Rightarrow> state \<Rightarrow> Result option outcome" where
  "execTest_output h output s =
     (if is_json h output
      then (case json_loads h output of
              None \<Rightarrow> (Inr None, s)
            | Some d \<Rightarrow> execTest_payload d s)
      else (Inr None, s))"

text \<open>
  \<^verbatim>\<open>execTest\<close>. The timeout is read inside the \<^verbatim>\<open>try\<close>, whose handlers catch
  \<^verbatim>\<open>CalledProcessError\<close> and \<^verbatim>\<open>TimeoutExpired\<close> only. The invocation is recorded in
  \<open>invoked\<close>.
\<close>

definition execTest :: "host \<Rightarrow> int option \<Rightarrow> state \<Rightarrow> Result option outcome" where
  "execTest h server_id s =
     (let cmd = build_cmd server_id in
      case timeout_of h of
        Inl e \<Rightarrow> (Inl e, s)
      | Inr timeout \<Rightarrow>
          (let s1 = s\<lparr>invoked := invoked s @ [(cmd, timeout)]\<rparr> in
           case check_output h (length (invoked s)) cmd timeout of
             Raised e \<Rightarrow> (Inl e, s1)
           | TimeoutExpired \<Rightarrow>
               (Inr None,
                logging (Log_error
                  ''Speedtest CLI process took too long to complete and was killed.'') s1)
           | CalledProcessError output \<Rightarrow>
               if \<not> is_json h output
               then (Inr None,
                     if length output > 0
                     then logging (Log_error
                       ''Speedtest CLI Error occurred that was not in JSON format'') s1
                     else s1)
               else execTest_output h output s1
           | Completed output \<Rightarrow> execTest_output h output s1))"

subsection \<open>\<^verbatim>\<open>runTest\<close>\<close>

text \<open>
  \<^verbatim>\<open>str(result.server_id if result else server_id or "unknown")\<close>: a \<^verbatim>\<open>Result\<close> object
  is always true; \<^verbatim>\<open>server_id or "unknown"\<close> is \<^verbatim>\<open>"unknown"\<close> for \<^verbatim>\<open>None\<close> and for 0.
\<close>

definition label_of :: "host \<Rightarrow> Result option \<Rightarrow> int option \<Rightarrow> error + string" where
  "label_of h result server_id =
     (case result of
        Some r \<Rightarrow> and_then (Result_server_id h r) (\<lambda>i. Inr (str_int i))
      | None \<Rightarrow>
          Inr (case server_id of
                 None \<Rightarrow> ''unknown''
               | Some n \<Rightarrow> if n \<noteq> 0 then str_int n else ''unknown''))"

text \<open>
  \<^verbatim>\<open>metric.labels(server_id)\<close> creates the child for the label value when there is
  none, with the initial value of its kind (0.0 for a gauge, an empty dict for an info).
\<close>

definition labels :: "'v \<Rightarrow> string \<Rightarrow> (string \<Rightarrow> 'v option) \<Rightarrow> (string \<Rightarrow> 'v option)" where
  "labels v0 l m = (case m l of None \<Rightarrow> m(l \<mapsto> v0) | Some v \<Rightarrow> m)"

text \<open>
  \<^verbatim>\<open>gauge.labels(l).set(arg)\<close>: the child is looked up first, then the argument is
  evaluated, then \<^verbatim>\<open>set\<close> stores \<^verbatim>\<open>float(arg)\<close>. The gauge is given by the update function
  of its field.
\<close>

definition set_gauge ::
  "host \<Rightarrow> (((string \<Rightarrow> real option) \<Rightarrow> (string \<Rightarrow> real option)) \<Rightarrow> state \<Rightarrow> state)
     \<Rightarrow> string \<Rightarrow> error + json \<Rightarrow> state \<Rightarrow> unit outcome" where
  "set_gauge h upd l arg s =
     (let s1 = upd (labels 0 l) s in
      case and_then arg (py_float h) of
        Inl e \<Rightarrow> (Inl e, s1)
      | Inr x \<Rightarrow> (Inr (), upd (\<lambda>m. m(l \<mapsto> x)) s1))"

text \<open>
  \<^verbatim>\<open>Info.info(val)\<close>: the keys of \<open>val\<close> never overlap the label name \<^verbatim>\<open>server_id\<close>; a
  version that checks the values raises \<^verbatim>\<open>ValueError\<close> when one of them is \<^verbatim>\<open>None\<close>.
\<close>

definition Info_info :: "host \<Rightarrow> (string \<times> json) list \<Rightarrow> error + (string \<times> json) list" where
  "Info_info h val =
     (if info_refuses_none h \<and> JNull \<in> snd ` set val then Inl ValueError else Inr val)"

text \<open>\<^verbatim>\<open>info.labels(l).info(arg)\<close>, in the same order as for a gauge.\<close>

definition set_info ::
  "host \<Rightarrow> string \<Rightarrow> error + (string \<times> json) list \<Rightarrow> state \<Rightarrow> unit outcome" where
  "set_info h l arg s =
     (let s1 = info_update (labels [] l) s in
      case and_then arg (Info_info h) of
        Inl e \<Rightarrow> (Inl e, s1)
      | Inr v \<Rightarrow> (Inr (), info_update (\<lambda>m. m(l \<mapsto> v)) s1))"

text \<open>A statement that may raise, followed by the rest of the block.\<close>

definition seq :: "unit outcome \<Rightarrow> (state \<Rightarrow> 'a outcome) \<Rightarrow> 'a outcome" where
  "seq r f = (case r of (Inl e, s) \<Rightarrow> (Inl e, s) | (Inr u, s) \<Rightarrow> f s)"

definition publish :: "host \<Rightarrow> Result option \<Rightarrow> string \<Rightarrow> state \<Rightarrow> unit outcome" where
  "publish h result l s =
     seq (set_info h l
            (case result of Some r \<Rightarrow> Result_server_info h r | None \<Rightarrow> Inr []) s) (\<lambda>s.
     seq (set_gauge h ping_update l
            (case result of Some r \<Rightarrow> Result_latency r | None \<Rightarrow> Inr (JInt 0)) s) (\<lambda>s.
     seq (set_gauge h jitter_update l
            (case result of Some r \<Rightarrow> Result_jitter r | None \<Rightarrow> Inr (JInt 0)) s) (\<lambda>s.
     seq (set_gauge h download_speed_update l
            (case result of Some r \<Rightarrow> Result_download_speed r | None \<Rightarrow> Inr (JInt 0)) s) (\<lambda>s.
     seq (set_gauge h upload_speed_update l
            (case result of Some r \<Rightarrow> Result_upload_speed r | None \<Rightarrow> Inr (JInt 0)) s) (\<lambda>s.
     seq (set_gauge h up_update l
            (Inr (JInt (case result of Some r \<Rightarrow> 1 | None \<Rightarrow> 0))) s) (\<lambda>s.
       (Inr (), case result of Some r \<Rightarrow> logging (Log_info r) s | None \<Rightarrow> s)))))))"

definition runTest :: "host \<Rightarrow> int option \<Rightarrow> state \<Rightarrow> unit outcome" where
  "runTest h server_id s =
     (case execTest h server_id s of
        (Inl e, s1) \<Rightarrow> (Inl e, s1)
      | (Inr result, s1) \<Rightarrow>
          (case label_of h result server_id of
             Inl e \<Rightarrow> (Inl e, s1)
           | Inr l \<Rightarrow> publish h result l s1))"

subsection \<open>\<^verbatim>\<open>updateResults\<close>\<close>

text \<open>
  The loop \<^verbatim>\<open>for server_id in server_ids.split(","): runTest(int(server_id))\<close>: each
  entry is converted when its turn comes.
\<close>

fun run_targets :: "host \<Rightarrow> string list \<Rightarrow> state \<Rightarrow> unit outcome" where
  "run_targets h [] s = (Inr (), s)"
| "run_targets h (x # xs) s =
     (case int_of_str h x of
        None \<Rightarrow> (Inl ValueError, s)
      | Some n \<Rightarrow> seq (runTest h (Some n) s) (run_targets h xs))"

text \<open>
  The body of \<^verbatim>\<open>if datetime.datetime.now() > cache_until:\<close> up to the assignment: an
  unset or empty \<^verbatim>\<open>SPEEDTEST_SERVER\<close> means one run with no server id.
\<close>

definition refresh :: "host \<Rightarrow> state \<Rightarrow> unit outcome" where
  "refresh h s =
     (case environ h ''SPEEDTEST_SERVER'' of
        None \<Rightarrow> runTest h None s
      | Some server_ids \<Rightarrow>
          if server_ids \<noteq> [] then run_targets h (split_on CHR '','' server_ids) s
          else runTest h None s)"

text \<open>
  \<^verbatim>\<open>datetime.datetime.now() + datetime.timedelta(seconds=cache_seconds)\<close>. A
  \<^verbatim>\<open>timedelta\<close> holds at most 999999999 days in either direction, and a \<^verbatim>\<open>datetime\<close> lies
  between \<^verbatim>\<open>datetime.min\<close> and \<^verbatim>\<open>datetime.max\<close>, which are 315537897599999999 microseconds
  apart; beyond either, Python raises \<^verbatim>\<open>OverflowError\<close>.
\<close>

definition timedelta_ok :: "int \<Rightarrow> bool" where
  "timedelta_ok seconds = (- 999999999 \<le> seconds div 86400 \<and> seconds div 86400 \<le> 999999999)"

definition datetime_ok :: "host \<Rightarrow> int \<Rightarrow> bool" where
  "datetime_ok h d = (0 \<le> d + local_epoch h \<and> d + local_epoch h \<le> 315537897599999999)"

definition datetime_add :: "host \<Rightarrow> int \<Rightarrow> int \<Rightarrow> error + int" where
  "datetime_add h d seconds =
     (if timedelta_ok seconds \<and> datetime_ok h (d + seconds * 1000000)
      then Inr (d + seconds * 1000000)
      else Inl OverflowError)"

text \<open>The assignment to \<^verbatim>\<open>cache_until\<close> that ends the refresh.\<close>

definition assign_cache_until :: "host \<Rightarrow> int \<Rightarrow> state \<Rightarrow> unit outcome" where
  "assign_cache_until h now' s =
     (case datetime_add h now' (cache_seconds s) of
        Inl e \<Rightarrow> (Inl e, s)
      | Inr d \<Rightarrow> (Inr (), s\<lparr>cache_until := d\<rparr>))"

text \<open>
  \<^verbatim>\<open>updateResults\<close>, the handler of \<^verbatim>\<open>/metrics\<close>. \<open>now\<close> is what the first
  \<^verbatim>\<open>datetime.datetime.now()\<close> returns and \<open>now'\<close> what the second returns, both in
  microseconds. The handler returns the WSGI application, which renders the
  instruments after the handler has returned; an exception leaves the handler before
  \<open>cache_until\<close> is assigned.
\<close>

definition updateResults :: "host \<Rightarrow> int \<Rightarrow> int \<Rightarrow> state \<Rightarrow> unit outcome" where
  "updateResults h now now' s =
     (if now > cache_until s
      then seq (refresh h s) (assign_cache_until h now')
      else (Inr (), s))"

section \<open>Vocabulary of the statements\<close>

text \<open>
  The failure sentinel of the specification (section 4.4), written under the label
  \<open>l\<close>: the up flag, latency, jitter, download and upload are 0 and the target info is
  an empty record. It is compared below with what \<open>runTest\<close> does.
\<close>

definition failure_sentinel :: "string \<Rightarrow> state \<Rightarrow> state" where
  "failure_sentinel l s =
     s\<lparr>info := (info s)(l \<mapsto> []),
       ping := (ping s)(l \<mapsto> 0),
       jitter := (jitter s)(l \<mapsto> 0),
       download_speed := (download_speed s)(l \<mapsto> 0),
       upload_speed := (upload_speed s)(l \<mapsto> 0),
       up := (up s)(l \<mapsto> 0)\<rparr>"

text \<open>The state once \<open>execTest\<close> has started the external tool with timeout \<open>t\<close>.\<close>

definition started :: "int option \<Rightarrow> int \<Rightarrow> state \<Rightarrow> state" where
  "started server_id t s = s\<lparr>invoked := invoked s @ [(build_cmd server_id, t)]\<rparr>"

text \<open>
  The label that \<open>runTest\<close> uses when there is no result: the requested identifier
  when it is an integer other than 0.
\<close>

definition requested_label :: "int option \<Rightarrow> string" where
  "requested_label server_id =
     (case server_id of
        None \<Rightarrow> ''unknown''
      | Some n \<Rightarrow> if n \<noteq> 0 then str_int n else ''unknown'')"

text \<open>What the six instruments hold under a label.\<close>

definition published ::
  "state \<Rightarrow> string \<Rightarrow>
     real option \<times> real option \<times> real option \<times> real option \<times> real option
       \<times> (string \<times> json) list option" where
  "published s l =
     (up s l, ping s l, jitter s l, download_speed s l, upload_speed s l, info s l)"

text \<open>
  The payloads that \<open>execTest\<close> tells apart: an object with an \<^verbatim>\<open>error\<close> member, and
  an object of type \<^verbatim>\<open>log\<close> (without an \<^verbatim>\<open>error\<close> member) that carries the timestamp and
  the message that are printed.
\<close>

definition error_payload :: "json \<Rightarrow> bool" where
  "error_payload d = (case d of JDict kvs \<Rightarrow> map_of kvs ''error'' \<noteq> None | _ \<Rightarrow> False)"

definition log_payload :: "json \<Rightarrow> bool" where
  "log_payload d =
     (case d of
        JDict kvs \<Rightarrow>
          map_of kvs ''error'' = None \<and> map_of kvs ''type'' = Some (JStr ''log'') \<and>
          map_of kvs ''timestamp'' \<noteq> None \<and> map_of kvs ''message'' \<noteq> None
      | _ \<Rightarrow> False)"

text \<open>
  The failed attempts that the specification names: a timeout, an output that does not
  decode, and an explicit tool error.
\<close>

definition failed_output :: "host \<Rightarrow> string \<Rightarrow> bool" where
  "failed_output h raw =
     (case json_loads h raw of None \<Rightarrow> True | Some d \<Rightarrow> error_payload d)"

definition failed_attempt :: "host \<Rightarrow> proc_outcome \<Rightarrow> bool" where
  "failed_attempt h out =
     (case out of
        TimeoutExpired \<Rightarrow> True
      | Completed raw \<Rightarrow> failed_output h raw
      | CalledProcessError raw \<Rightarrow> failed_output h raw
      | Raised e \<Rightarrow> False)"

text \<open>An attempt whose output decodes to a payload of type \<^verbatim>\<open>log\<close>.\<close>

definition log_output :: "host \<Rightarrow> string \<Rightarrow> bool" where
  "log_output h raw = (case json_loads h raw of None \<Rightarrow> False | Some d \<Rightarrow> log_payload d)"

definition log_attempt :: "host \<Rightarrow> proc_outcome \<Rightarrow> bool" where
  "log_attempt h out =
     (case out of
        Completed raw \<Rightarrow> log_output h raw
      | CalledProcessError raw \<Rightarrow> log_output h raw
      | _ \<Rightarrow> False)"

text \<open>
  The attempts during which nothing is raised. A result is readable when every property
  that \<open>runTest\<close> reads is there, \<^verbatim>\<open>Info.info\<close> accepts the server record and every gauge
  value converts to a float. A payload is handled quietly when it is an object with an
  \<^verbatim>\<open>error\<close> member, an object without a type, a log payload with its timestamp and
  message, a readable result, an object of another type, or a list or string in which
  neither \<^verbatim>\<open>"error"\<close> nor \<^verbatim>\<open>"type"\<close> is found.
\<close>

definition returns :: "error + 'a \<Rightarrow> bool" where
  "returns r = (case r of Inl e \<Rightarrow> False | Inr x \<Rightarrow> True)"

definition readable :: "host \<Rightarrow> Result \<Rightarrow> bool" where
  "readable h r =
     (returns (and_then (Result_server_info h r) (Info_info h)) \<and>
      returns (and_then (Result_latency r) (py_float h)) \<and>
      returns (and_then (Result_jitter r) (py_float h)) \<and>
      returns (and_then (Result_download_speed r) (py_float h)) \<and>
      returns (and_then (Result_upload_speed r) (py_float h)))"

definition quiet_payload :: "host \<Rightarrow> json \<Rightarrow> bool" where
  "quiet_payload h d =
     (case d of
        JDict kvs \<Rightarrow>
          (case map_of kvs ''error'' of
             Some v \<Rightarrow> True
           | None \<Rightarrow>
               (case map_of kvs ''type'' of
                  None \<Rightarrow> True
                | Some t \<Rightarrow>
                    if t = JStr ''log''
                    then map_of kvs ''timestamp'' \<noteq> None \<and> map_of kvs ''message'' \<noteq> None
                    else if t = JStr ''result'' then readable h (Result d)
                    else True))
      | JList xs \<Rightarrow> JStr ''error'' \<notin> set xs \<and> JStr ''type'' \<notin> set xs
      | JStr x \<Rightarrow> \<not> substring ''error'' x \<and> \<not> substring ''type'' x
      | _ \<Rightarrow> False)"

definition quiet_output :: "host \<Rightarrow> string \<Rightarrow> bool" where
  "quiet_output h raw =
     (case json_loads h raw of None \<Rightarrow> True | Some d \<Rightarrow> quiet_payload h d)"

definition quiet_attempt :: "host \<Rightarrow> proc_outcome \<Rightarrow> bool" where
  "quiet_attempt h out =
     (case out of
        TimeoutExpired \<Rightarrow> True
      | Completed raw \<Rightarrow> quiet_output h raw
      | CalledProcessError raw \<Rightarrow> quiet_output h raw
      | Raised e \<Rightarrow> False)"

text \<open>
  The configurations under which a measurement cycle reaches the external tool: the
  timeout converts to an integer, and so does the first entry of \<^verbatim>\<open>SPEEDTEST_SERVER\<close>
  when that variable is set and not empty.
\<close>

definition tool_reachable :: "host \<Rightarrow> bool" where
  "tool_reachable h =
     (returns (timeout_of h) \<and>
      (case environ h ''SPEEDTEST_SERVER'' of
         None \<Rightarrow> True
       | Some v \<Rightarrow>
           v = [] \<or>
           (case split_on CHR '','' v of
              [] \<Rightarrow> False
            | x # xs \<Rightarrow> int_of_str h x \<noteq> None)))"

text \<open>
  The configurations whose target list converts entirely: every entry of
  \<^verbatim>\<open>SPEEDTEST_SERVER\<close> is accepted by \<^verbatim>\<open>int\<close>.
\<close>

definition targets_convert :: "host \<Rightarrow> bool" where
  "targets_convert h =
     (case environ h ''SPEEDTEST_SERVER'' of
        None \<Rightarrow> True
      | Some v \<Rightarrow> v = [] \<or> list_all (\<lambda>x. int_of_str h x \<noteq> None) (split_on CHR '','' v))"




section \<open>Example outputs of the external tool\<close>

text \<open>
  Outputs of the tool with the values that \<^verbatim>\<open>json.loads\<close> returns for them. They serve
  the examples that follow the general statements.
\<close>

definition raw_result :: string where
  \<open>raw_result = ''{"type": "result", "server": {"id": 7, "name": "Acme", "location": "Oslo", "country": "Norway"}, "ping": {"latency": 5.5, "jitter": 1}, "download": {"bandwidth": 100}, "upload": {"bandwidth": 50}}''\<close>

definition json_result :: json where
  "json_result =
     JDict [(''type'', JStr ''result''),
            (''server'', JDict [(''id'', JInt 7), (''name'', JStr ''Acme''),
                                (''location'', JStr ''Oslo''), (''country'', JStr ''Norway'')]),
            (''ping'', JDict [(''latency'', JFloat 5.5), (''jitter'', JInt 1)]),
            (''download'', JDict [(''bandwidth'', JInt 100)]),
            (''upload'', JDict [(''bandwidth'', JInt 50)])]"

definition raw_log :: string where
  \<open>raw_log = ''{"type": "log", "timestamp": "2024-01-01T00:00:00Z", "message": "No servers defined", "level": "error"}''\<close>

definition json_log :: json where
  "json_log =
     JDict [(''type'', JStr ''log''), (''timestamp'', JStr ''2024-01-01T00:00:00Z''),
            (''message'', JStr ''No servers defined''), (''level'', JStr ''error'')]"

definition raw_error :: string where
  \<open>raw_error = ''{"error": "Cannot open socket"}''\<close>

definition json_error :: json where
  "json_error = JDict [(''error'', JStr ''Cannot open socket'')]"

definition raw_other :: string where
  \<open>raw_other = ''{"type": "ping"}''\<close>

definition json_other :: json where
  "json_other = JDict [(''type'', JStr ''ping'')]"

definition raw_untyped :: string where
  \<open>raw_untyped = ''{}''\<close>

definition raw_truncated :: string where
  \<open>raw_truncated = ''{"type": "result"}''\<close>

definition json_truncated :: json where
  "json_truncated = JDict [(''type'', JStr ''result'')]"

definition raw_text :: string where
  "raw_text = ''Usage: speedtest [<options>]''"

definition example_loads :: "string \<Rightarrow> json option" where
  "example_loads =
     map_of [(raw_result, json_result), (raw_log, json_log), (raw_error, json_error),
             (raw_other, json_other), (raw_untyped, JDict []),
             (raw_truncated, json_truncated)]"

text \<open>
  The floats of the examples. \<open>micro\<close> is the double that \<^verbatim>\<open>10**-6\<close> evaluates to. The
  tables give what Python computes for 800, 1500000 and 12345678 bits per second:
  the product with \<open>micro\<close>, that product rounded to two places, and the text of the
  rounded float. Outside the tables the operations are those of the reals and the text
  is empty.
\<close>

definition micro :: real where
  "micro = 4722366482869645 / 4722366482869645213696"

definition example_pow :: "real \<Rightarrow> real \<Rightarrow> real" where
  "example_pow x y = (if x = 10 \<and> y = - 6 then micro else x powr y)"

definition example_mul :: "real \<Rightarrow> real \<Rightarrow> real" where
  "example_mul x y =
     (if x = 800 \<and> y = micro then 1844674407370955 / 2305843009213693952
      else if x = 1500000 \<and> y = micro then 3 / 2
      else if x = 12345678 \<and> y = micro then 1737499713763629 / 140737488355328
      else x * y)"

definition example_round :: "real \<Rightarrow> int \<Rightarrow> real" where
  "example_round x n =
     (if x = 1844674407370955 / 2305843009213693952 \<and> n = 2 then 0
      else if x = 1737499713763629 / 140737488355328 \<and> n = 2
      then 6952431924753203 / 562949953421312
      else x)"

definition example_str :: "real \<Rightarrow> string" where
  "example_str x =
     (if x = 0 then ''0.0''
      else if x = 3 / 2 then ''1.5''
      else if x = 6952431924753203 / 562949953421312 then ''12.35''
      else [])"

text \<open>
  A host for the examples: the decoder and \<^verbatim>\<open>int\<close> are tables that agree with Python on
  the strings the examples use, \<^verbatim>\<open>float\<close> on a string is never reached, the \<open>i\<close>-th
  invocation of the tool ends as the \<open>i\<close>-th entry of \<open>outs\<close> (and times out once the list
  is used up), only \<^verbatim>\<open>SPEEDTEST_SERVER\<close> may be set, \<^verbatim>\<open>Info.info\<close> checks for \<^verbatim>\<open>None\<close> and
  the time zone is UTC.
\<close>

definition example_host :: "proc_outcome list \<Rightarrow> string option \<Rightarrow> host" where
  "example_host outs servers =
     \<lparr>json_loads = example_loads,
      int_of_str = map_of [(''0'', 0), (''1'', 1), (''2'', 2), (''7'', 7)],
      float_of_str = (\<lambda>s. None),
      check_output = (\<lambda>i cmd t. if i < length outs then outs ! i else TimeoutExpired),
      environ = (\<lambda>k. if k = ''SPEEDTEST_SERVER'' then servers else None),
      float_pow = example_pow,
      float_mul = example_mul,
      float_round = example_round,
      float_str = example_str,
      info_refuses_none = True,
      local_epoch = 62135596800000000\<rparr>"

text \<open>
  A host with \<^verbatim>\<open>SPEEDTEST_SERVER=7\<close> whose tool reports a result at its first invocation
  and a log payload at its second, and the state after a first scrape on it.
\<close>

definition log_after_result :: host where
  "log_after_result = example_host [Completed raw_result, Completed raw_log] (Some ''7'')"

definition measured :: state where
  "measured = snd (updateResults log_after_result 1 2 (initial 0))"

text \<open>
  Two hosts with \<^verbatim>\<open>SPEEDTEST_SERVER=1,2\<close>. On the first the tool times out for the first
  target and reports a result for the second. On the second the tool reports, for the
  first target, a payload of type \<^verbatim>\<open>result\<close> that lacks every other member, and a full
  result for the second target.
\<close>

definition timeout_then_result :: host where
  "timeout_then_result = example_host [TimeoutExpired, Completed raw_result] (Some ''1,2'')"

definition truncated_then_result :: host where
  "truncated_then_result =
     example_host [Completed raw_truncated, Completed raw_result] (Some ''1,2'')"

section \<open>Basic facts\<close>

lemma labels_then_set: "(labels v l m)(l \<mapsto> x) = m(l \<mapsto> x)"
  by (simp add: labels_def split: option.splits)

lemma set_after_labels: "(\<lambda>m. m(l \<mapsto> x)) \<circ> labels v l = (\<lambda>m. m(l \<mapsto> x))"
  by (simp add: fun_eq_iff labels_then_set)

lemma bit_length_le: "bit_length n \<le> k \<longleftrightarrow> n < 2 ^ k"
proof (induction n arbitrary: k rule: bit_length.induct)
  case (1 n)
  show ?case
  proof (cases "n = 0")
    case True
    then show ?thesis
      by (simp add: bit_length.simps)
  next
    case False
    show ?thesis
    proof (cases k)
      case 0
      with False show ?thesis
        by (simp add: bit_length.simps [of n])
    next
      case (Suc j)
      have "bit_length (n div 2) \<le> j \<longleftrightarrow> n div 2 < 2 ^ j"
        using "1.IH" [OF False] .
      moreover have "n div 2 < 2 ^ j \<longleftrightarrow> n < 2 * 2 ^ j"
        by auto
      ultimately show ?thesis
        using False Suc by (simp add: bit_length.simps [of n])
    qed
  qed
qed

lemma float_of_int_exact:
  assumes "\<bar>n\<bar> < 2 ^ 53"
  shows "float_of_int n = Inr (of_int n)"
proof -
  have small: "nat \<bar>n\<bar> < 2 ^ 53"
    using assms by (simp add: nat_less_iff)
  then have r: "round_to_double (nat \<bar>n\<bar>) = nat \<bar>n\<bar>"
    by (simp add: round_to_double_def bit_length_le)
  have "(2::nat) ^ 53 < 2 ^ 1024"
    by (rule power_strict_increasing) simp_all
  with small have "\<not> (2::nat) ^ 1024 \<le> nat \<bar>n\<bar>"
    by linarith
  then show ?thesis
    by (simp add: float_of_int_def r Let_def)
qed

lemma float_of_int_numeral [simp]:
  "numeral k < (2::int) ^ 53 \<Longrightarrow> float_of_int (numeral k) = Inr (numeral k)"
  using float_of_int_exact [of "numeral k"] by simp

lemma float_of_int_0 [simp]: "float_of_int 0 = Inr 0"
  using float_of_int_exact [of 0] by simp

lemma float_of_int_1 [simp]: "float_of_int 1 = Inr 1"
  using float_of_int_exact [of 1] by simp



lemma Info_info_empty [simp]: "Info_info h [] = Inr []"
  by (simp add: Info_info_def)

lemma publish_None: "publish h None l s = (Inr (), failure_sentinel l s)"
  by (simp add: publish_def set_info_def set_gauge_def seq_def and_then_def
      failure_sentinel_def labels_then_set)

lemma runTest_failed:
  "execTest h sid s = (Inr None, s1) \<Longrightarrow>
   runTest h sid s = (Inr (), failure_sentinel (requested_label sid) s1)"
  by (simp add: runTest_def label_of_def publish_None requested_label_def)

lemma build_cmd_zero: "build_cmd (Some 0) = build_cmd None"
  by (simp add: build_cmd_def)

lemma execTest_zero: "execTest h (Some 0) s = execTest h None s"
  by (simp add: execTest_def build_cmd_zero)

lemma label_of_zero: "label_of h result (Some 0) = label_of h result None"
  by (cases result) (simp_all add: label_of_def)

lemma execTest_timeout:
  "timeout_of h = Inr t \<Longrightarrow>
   check_output h (length (invoked s)) (build_cmd sid) t = TimeoutExpired \<Longrightarrow>
   execTest h sid s =
     (Inr None,
      logging (Log_error ''Speedtest CLI process took too long to complete and was killed.'')
        (started sid t s))"
  by (simp add: execTest_def started_def)

lemma execTest_completed:
  "timeout_of h = Inr t \<Longrightarrow>
   check_output h (length (invoked s)) (build_cmd sid) t = Completed out \<Longrightarrow>
   execTest h sid s =
     (case json_loads h out of
        None \<Rightarrow> (Inr None, started sid t s)
      | Some d \<Rightarrow> execTest_payload d (started sid t s))"
  by (simp add: execTest_def execTest_output_def is_json_def started_def split: option.splits)

lemma execTest_called_process_error:
  "timeout_of h = Inr t \<Longrightarrow>
   check_output h (length (invoked s)) (build_cmd sid) t = CalledProcessError out \<Longrightarrow>
   execTest h sid s =
     (case json_loads h out of
        None \<Rightarrow>
          (Inr None,
           if out \<noteq> []
           then logging (Log_error ''Speedtest CLI Error occurred that was not in JSON format'')
                  (started sid t s)
           else started sid t s)
      | Some d \<Rightarrow> execTest_payload d (started sid t s))"
  by (simp add: execTest_def execTest_output_def is_json_def started_def split: option.splits)

lemma execTest_no_timeout:
  "timeout_of h = Inl e \<Longrightarrow> execTest h sid s = (Inl e, s)"
  by (simp add: execTest_def)

lemma payload_error:
  "map_of kvs ''error'' = Some v \<Longrightarrow>
   execTest_payload (JDict kvs) s =
     (Inr None, print (Print_value v) (print (Print_text ''Something went wrong'') s))"
  by (simp add: execTest_payload_def)

lemma payload_no_type:
  "map_of kvs ''error'' = None \<Longrightarrow> map_of kvs ''type'' = None \<Longrightarrow>
   execTest_payload (JDict kvs) s = (Inr None, s)"
  by (simp add: execTest_payload_def)

lemma payload_log:
  "map_of kvs ''error'' = None \<Longrightarrow> map_of kvs ''type'' = Some (JStr ''log'') \<Longrightarrow>
   map_of kvs ''timestamp'' = Some ts \<Longrightarrow> map_of kvs ''message'' = Some msg \<Longrightarrow>
   execTest_payload (JDict kvs) s = (Inr None, print (Print_log ts msg) s)"
  by (simp add: execTest_payload_def print_log_def)

lemma payload_other:
  "map_of kvs ''error'' = None \<Longrightarrow> map_of kvs ''type'' = Some t \<Longrightarrow>
   t \<noteq> JStr ''log'' \<Longrightarrow> t \<noteq> JStr ''result'' \<Longrightarrow>
   execTest_payload (JDict kvs) s = (Inr None, s)"
  by (simp add: execTest_payload_def)

lemma payload_result:
  "map_of kvs ''error'' = None \<Longrightarrow> map_of kvs ''type'' = Some (JStr ''result'') \<Longrightarrow>
   execTest_payload (JDict kvs) s = (Inr (Some (Result (JDict kvs))), s)"
  by (simp add: execTest_payload_def Result_parse_def Result_init_def and_then_def)

lemma Result_parse_not_result:
  "py_getitem d ''type'' \<noteq> Inr (JStr ''result'') \<Longrightarrow> Result_parse d \<noteq> Inr (Some r)"
  by (auto simp: Result_parse_def Result_init_def and_then_def
      split: sum.splits error.splits if_splits)

lemma payload_not_result:
  "py_getitem d ''type'' \<noteq> Inr (JStr ''result'') \<Longrightarrow>
   fst (execTest_payload d s) \<noteq> Inr (Some r)"
  by (auto simp: execTest_payload_def Let_def
      split: sum.splits bool.splits prod.splits if_splits)

lemma Result_parse_other_kind:
  "map_of kvs ''type'' = Some t \<Longrightarrow> t \<noteq> JStr ''result'' \<Longrightarrow>
   Result_parse (JDict kvs) = Inr None"
  by (simp add: Result_parse_def Result_init_def and_then_def)

lemma Result_parse_no_kind:
  "map_of kvs ''type'' = None \<Longrightarrow> Result_parse (JDict kvs) = Inl (KeyError ''type'')"
  by (simp add: Result_parse_def Result_init_def and_then_def)

lemma str_int_0: "str_int 0 = ''0''"
  by (simp add: str_int_def str_nat.simps)

lemma str_int_1: "str_int 1 = ''1''"
  by (simp add: str_int_def str_nat.simps)

lemma str_int_7: "str_int 7 = ''7''"
  by (simp add: str_int_def str_nat.simps)

section \<open>What an attempt leaves alone\<close>

text \<open>
  An attempt never assigns an instrument before \<open>runTest\<close> publishes, and never the
  two cache globals. With a timeout that converts it runs the tool exactly once,
  whether or not something is raised afterwards.
\<close>

lemma published_print [simp]: "published (print e s) = published s"
  by (simp add: published_def print_def fun_eq_iff)

lemma published_logging [simp]: "published (logging e s) = published s"
  by (simp add: published_def logging_def fun_eq_iff)

lemma published_started [simp]: "published (started sid t s) = published s"
  by (simp add: published_def started_def fun_eq_iff)

lemma published_cache_until [simp]: "published (s\<lparr>cache_until := x\<rparr>) = published s"
  by (simp add: published_def fun_eq_iff)

lemma published_print_log: "print_log d s = (r, s') \<Longrightarrow> published s' = published s"
  by (auto simp: print_log_def split: sum.splits)

lemma published_payload: "execTest_payload d s = (r, s') \<Longrightarrow> published s' = published s"
  by (auto simp: execTest_payload_def Let_def dest: published_print_log
      split: sum.splits bool.splits prod.splits if_splits)

lemma published_output: "execTest_output h raw s = (r, s') \<Longrightarrow> published s' = published s"
  by (auto simp: execTest_output_def dest: published_payload split: option.splits if_splits)

lemma published_execTest: "execTest h sid s = (r, s') \<Longrightarrow> published s' = published s"
  by (auto simp: execTest_def Let_def started_def [symmetric] dest!: published_output
      split: sum.splits proc_outcome.splits if_splits)

lemma published_sentinel:
  "published (failure_sentinel l s) l' =
     (if l' = l then (Some 0, Some 0, Some 0, Some 0, Some 0, Some []) else published s l')"
  by (simp add: published_def failure_sentinel_def)

lemma seq_snd:
  assumes "f (snd m) = f s0" and "\<And>s. f s = f s0 \<Longrightarrow> f (snd (k s)) = f s0"
  shows "f (snd (seq m k)) = f s0"
  using assms by (cases m) (auto simp: seq_def split: sum.splits)

lemma set_gauge_snd:
  assumes "\<And>g s. f (upd g s) = f s"
  shows "f (snd (set_gauge h upd l arg s)) = f s"
  using assms by (simp add: set_gauge_def Let_def split: sum.splits)

lemma set_info_snd:
  assumes "\<And>g s. f (info_update g s) = f s"
  shows "f (snd (set_info h l arg s)) = f s"
  using assms by (simp add: set_info_def Let_def split: sum.splits)

lemma publish_snd:
  assumes "\<And>g s. f (info_update g s) = f s" "\<And>g s. f (ping_update g s) = f s"
    "\<And>g s. f (jitter_update g s) = f s" "\<And>g s. f (download_speed_update g s) = f s"
    "\<And>g s. f (upload_speed_update g s) = f s" "\<And>g s. f (up_update g s) = f s"
    "\<And>g s. f (logged_update g s) = f s"
  shows "f (snd (publish h result l s)) = f s"
  unfolding publish_def
  apply (rule seq_snd)
   apply (simp add: set_info_snd assms)
  apply (rule seq_snd)
   apply (simp add: set_gauge_snd assms)
  apply (rule seq_snd)
   apply (simp add: set_gauge_snd assms)
  apply (rule seq_snd)
   apply (simp add: set_gauge_snd assms)
  apply (rule seq_snd)
   apply (simp add: set_gauge_snd assms)
  apply (rule seq_snd)
   apply (simp add: set_gauge_snd assms)
  apply (simp add: logging_def assms split: option.splits)
  done

lemma publish_invoked: "invoked (snd (publish h result l s)) = invoked s"
  by (rule publish_snd) simp_all

lemma publish_cache:
  "cache_seconds (snd (publish h result l s)) = cache_seconds s"
  "cache_until (snd (publish h result l s)) = cache_until s"
  by (rule publish_snd; simp)+

lemma print_log_fields:
  "print_log d s = (r, s') \<Longrightarrow>
   invoked s' = invoked s \<and> cache_seconds s' = cache_seconds s \<and> cache_until s' = cache_until s"
  by (auto simp: print_log_def print_def split: sum.splits)

lemma payload_fields:
  "execTest_payload d s = (r, s') \<Longrightarrow>
   invoked s' = invoked s \<and> cache_seconds s' = cache_seconds s \<and> cache_until s' = cache_until s"
  by (auto simp: execTest_payload_def Let_def print_def dest: print_log_fields
      split: sum.splits bool.splits prod.splits if_splits)

lemma output_fields:
  "execTest_output h raw s = (r, s') \<Longrightarrow>
   invoked s' = invoked s \<and> cache_seconds s' = cache_seconds s \<and> cache_until s' = cache_until s"
  by (auto simp: execTest_output_def dest: payload_fields split: option.splits if_splits)

lemma execTest_fields:
  assumes "timeout_of h = Inr t" and "execTest h sid s = (r, s')"
  shows "invoked s' = invoked s @ [(build_cmd sid, t)] \<and>
         cache_seconds s' = cache_seconds s \<and> cache_until s' = cache_until s"
  using assms
  by (auto simp: execTest_def Let_def logging_def dest!: output_fields
      split: proc_outcome.splits if_splits)

lemma runTest_fields:
  assumes "timeout_of h = Inr t"
  shows "invoked (snd (runTest h sid s)) = invoked s @ [(build_cmd sid, t)] \<and>
         cache_seconds (snd (runTest h sid s)) = cache_seconds s \<and>
         cache_until (snd (runTest h sid s)) = cache_until s"
proof -
  obtain r s1 where ex: "execTest h sid s = (r, s1)"
    by (cases "execTest h sid s")
  note f = execTest_fields [OF assms ex]
  show ?thesis
    using f
    by (simp add: runTest_def ex publish_invoked publish_cache split: sum.splits)
qed

lemma runTest_cache:
  "cache_seconds (snd (runTest h sid s)) = cache_seconds s \<and>
   cache_until (snd (runTest h sid s)) = cache_until s"
proof (cases "timeout_of h")
  case (Inl e)
  then show ?thesis
    by (simp add: runTest_def execTest_no_timeout)
next
  case (Inr t)
  then show ?thesis
    using runTest_fields [of h t sid s] by simp
qed

lemma run_targets_cache:
  "cache_seconds (snd (run_targets h xs s)) = cache_seconds s \<and>
   cache_until (snd (run_targets h xs s)) = cache_until s"
proof (induction xs arbitrary: s)
  case Nil
  then show ?case by simp
next
  case (Cons x xs)
  show ?case
  proof (cases "int_of_str h x")
    case None
    then show ?thesis by simp
  next
    case (Some n)
    obtain r s1 where run: "runTest h (Some n) s = (r, s1)"
      by (cases "runTest h (Some n) s")
    then have "cache_seconds s1 = cache_seconds s \<and> cache_until s1 = cache_until s"
      using runTest_cache [of h "Some n" s] by simp
    then show ?thesis
      using Some run Cons.IH [of s1]
      by (cases r) (simp_all add: seq_def)
  qed
qed

lemma refresh_cache:
  "cache_seconds (snd (refresh h s)) = cache_seconds s \<and>
   cache_until (snd (refresh h s)) = cache_until s"
  by (simp add: refresh_def runTest_cache run_targets_cache split: option.splits)

lemma updateResults_fresh:
  "now \<le> cache_until s \<Longrightarrow> updateResults h now now' s = (Inr (), s)"
  by (simp add: updateResults_def)

lemma updateResults_stale:
  "cache_until s < now \<Longrightarrow>
   updateResults h now now' s = seq (refresh h s) (assign_cache_until h now')"
  by (simp add: updateResults_def)

lemma datetime_add_value:
  "datetime_add h d n = Inr c \<Longrightarrow> c = d + n * 1000000"
  by (simp add: datetime_add_def split: if_splits)

lemma assign_cache_until_cases:
  "(\<exists>e. assign_cache_until h now' s = (Inl e, s)) \<or>
   assign_cache_until h now' s =
     (Inr (), s\<lparr>cache_until := now' + cache_seconds s * 1000000\<rparr>)"
  by (auto simp: assign_cache_until_def dest: datetime_add_value split: sum.splits)

lemma assign_cache_until_fields:
  assumes "assign_cache_until h now' s = (r, s')"
  shows "invoked s' = invoked s \<and> cache_seconds s' = cache_seconds s \<and>
         published s' = published s \<and>
         cache_until s' =
           (case r of Inl e \<Rightarrow> cache_until s | Inr u \<Rightarrow> now' + cache_seconds s * 1000000)"
  using assms
  by (auto simp: assign_cache_until_def published_def dest: datetime_add_value
      split: sum.splits)

lemma updateResults_cases:
  assumes "cache_until s < now" and "refresh h s = (r1, s1)"
  shows "updateResults h now now' s =
           (case r1 of Inl e \<Rightarrow> (Inl e, s1) | Inr u \<Rightarrow> assign_cache_until h now' s1)"
  using assms by (simp add: updateResults_def seq_def split: sum.splits)

lemma updateResults_cache_until:
  assumes "cache_until s < now"
  shows "cache_until (snd (updateResults h now now' s)) =
           (case fst (updateResults h now now' s) of
              Inl e \<Rightarrow> cache_until s
            | Inr u \<Rightarrow> now' + cache_seconds s * 1000000)"
    and "cache_seconds (snd (updateResults h now now' s)) = cache_seconds s"
proof -
  obtain r1 s1 where r: "refresh h s = (r1, s1)"
    by (cases "refresh h s")
  have keep: "cache_seconds s1 = cache_seconds s \<and> cache_until s1 = cache_until s"
    using refresh_cache [of h s] r by simp
  obtain r2 s2 where a: "assign_cache_until h now' s1 = (r2, s2)"
    by (cases "assign_cache_until h now' s1")
  note f = assign_cache_until_fields [OF a]
  note u = updateResults_cases [OF assms r, of now']
  show "cache_until (snd (updateResults h now now' s)) =
           (case fst (updateResults h now now' s) of
              Inl e \<Rightarrow> cache_until s
            | Inr u \<Rightarrow> now' + cache_seconds s * 1000000)"
    using u a f keep by (cases r1; cases r2) simp_all
  show "cache_seconds (snd (updateResults h now now' s)) = cache_seconds s"
    using u a f keep by (cases r1) simp_all
qed

lemma run_targets_invoked_mono:
  assumes "timeout_of h = Inr t"
  shows "length (invoked s) \<le> length (invoked (snd (run_targets h xs s)))"
proof (induction xs arbitrary: s)
  case Nil
  then show ?case by simp
next
  case (Cons x xs)
  show ?case
  proof (cases "int_of_str h x")
    case None
    then show ?thesis by simp
  next
    case (Some n)
    obtain r s1 where run: "runTest h (Some n) s = (r, s1)"
      by (cases "runTest h (Some n) s")
    then have "length (invoked s) \<le> length (invoked s1)"
      using runTest_fields [OF assms, of "Some n" s] by simp
    then show ?thesis
      using Some run Cons.IH [of s1]
      by (cases r) (simp_all add: seq_def)
  qed
qed

lemma run_targets_invokes:
  assumes "timeout_of h = Inr t" and "int_of_str h x = Some n"
  shows "length (invoked s) < length (invoked (snd (run_targets h (x # xs) s)))"
proof -
  obtain r s1 where run: "runTest h (Some n) s = (r, s1)"
    by (cases "runTest h (Some n) s")
  then have "length (invoked s) < length (invoked s1)"
    using runTest_fields [OF assms(1), of "Some n" s] by simp
  then show ?thesis
    using assms(2) run run_targets_invoked_mono [OF assms(1), of s1 xs]
    by (cases r) (simp_all add: seq_def)
qed

lemma refresh_invokes:
  assumes "tool_reachable h"
  shows "length (invoked s) < length (invoked (snd (refresh h s)))"
proof -
  obtain t where t: "timeout_of h = Inr t"
    using assms by (cases "timeout_of h") (simp_all add: tool_reachable_def returns_def)
  have single: "length (invoked s) < length (invoked (snd (runTest h None s)))"
    using runTest_fields [OF t, of None s] by simp
  show ?thesis
  proof (cases "environ h ''SPEEDTEST_SERVER''")
    case None
    then show ?thesis
      using single by (simp add: refresh_def)
  next
    case (Some v)
    show ?thesis
    proof (cases "v = []")
      case True
      then show ?thesis
        using single Some by (simp add: refresh_def)
    next
      case False
      then obtain x xs n where "split_on CHR '','' v = x # xs" "int_of_str h x = Some n"
        using assms Some by (auto simp: tool_reachable_def split: list.splits)
      then show ?thesis
        using Some False run_targets_invokes [OF t, of x n s xs]
        by (simp add: refresh_def)
    qed
  qed
qed

lemma updateResults_invoked:
  assumes "cache_until s < now"
  shows "invoked (snd (updateResults h now now' s)) = invoked (snd (refresh h s))"
proof -
  obtain r1 s1 where r: "refresh h s = (r1, s1)"
    by (cases "refresh h s")
  obtain r2 s2 where a: "assign_cache_until h now' s1 = (r2, s2)"
    by (cases "assign_cache_until h now' s1")
  show ?thesis
    using updateResults_cases [OF assms r, of now'] a assign_cache_until_fields [OF a] r
    by (cases r1) simp_all
qed

section \<open>What an attempt returns\<close>

lemma failed_output_execTest_output:
  "failed_output h raw \<Longrightarrow> \<exists>s1. execTest_output h raw s = (Inr None, s1)"
  by (auto simp: failed_output_def execTest_output_def is_json_def error_payload_def
      payload_error split: option.splits json.splits)

lemma failed_attempt_execTest:
  assumes t: "timeout_of h = Inr t"
    and f: "failed_attempt h (check_output h (length (invoked s)) (build_cmd sid) t)"
  shows "\<exists>s1. execTest h sid s = (Inr None, s1)"
proof (cases "check_output h (length (invoked s)) (build_cmd sid) t")
  case (Completed raw)
  with f have "failed_output h raw"
    by (simp add: failed_attempt_def)
  then show ?thesis
    using t Completed
    by (auto simp: execTest_completed failed_output_def error_payload_def payload_error
        split: option.splits json.splits)
next
  case (CalledProcessError raw)
  with f have "failed_output h raw"
    by (simp add: failed_attempt_def)
  then show ?thesis
    using t CalledProcessError
    by (auto simp: execTest_called_process_error failed_output_def error_payload_def
        payload_error split: option.splits json.splits)
next
  case TimeoutExpired
  then show ?thesis
    using t by (simp add: execTest_timeout)
next
  case (Raised e)
  with f show ?thesis
    by (simp add: failed_attempt_def)
qed

lemma log_output_execTest_output:
  assumes "json_loads h raw = Some d" "log_payload d"
  shows "\<exists>ts msg. execTest_payload d s = (Inr None, print (Print_log ts msg) s)"
proof (cases d)
  case (JDict kvs)
  with assms obtain ts msg where
    "map_of kvs ''error'' = None" "map_of kvs ''type'' = Some (JStr ''log'')"
    "map_of kvs ''timestamp'' = Some ts" "map_of kvs ''message'' = Some msg"
    by (auto simp: log_payload_def)
  then have "execTest_payload d s = (Inr None, print (Print_log ts msg) s)"
    using JDict by (simp add: payload_log)
  then show ?thesis
    by blast
qed (use assms in \<open>simp_all add: log_payload_def\<close>)

lemma log_attempt_execTest:
  assumes t: "timeout_of h = Inr t"
    and l: "log_attempt h (check_output h (length (invoked s)) (build_cmd sid) t)"
  shows "\<exists>ts msg. execTest h sid s = (Inr None, print (Print_log ts msg) (started sid t s))"
proof (cases "check_output h (length (invoked s)) (build_cmd sid) t")
  case (Completed raw)
  with l obtain d where "json_loads h raw = Some d" "log_payload d"
    by (auto simp: log_attempt_def log_output_def split: option.splits)
  then show ?thesis
    using t Completed log_output_execTest_output [of h raw d "started sid t s"]
    by (simp add: execTest_completed)
next
  case (CalledProcessError raw)
  with l obtain d where "json_loads h raw = Some d" "log_payload d"
    by (auto simp: log_attempt_def log_output_def split: option.splits)
  then show ?thesis
    using t CalledProcessError log_output_execTest_output [of h raw d "started sid t s"]
    by (simp add: execTest_called_process_error)
next
  case TimeoutExpired
  with l show ?thesis by (simp add: log_attempt_def)
next
  case (Raised e)
  with l show ?thesis by (simp add: log_attempt_def)
qed

lemma returnsE: "returns r \<Longrightarrow> \<exists>x. r = Inr x"
  by (cases r) (simp_all add: returns_def)

lemma readable_label:
  assumes "readable h r"
  shows "\<exists>l. label_of h (Some r) sid = Inr l"
proof -
  have "returns (and_then (Result_server_info h r) (Info_info h))"
    using assms by (simp add: readable_def)
  then obtain i where "Result_server_id h r = Inr i"
    by (cases "Result_server_id h r")
       (simp_all add: Result_server_info_def and_then_def returns_def)
  then show ?thesis
    by (simp add: label_of_def and_then_def)
qed

lemma set_gauge_returns:
  "and_then arg (py_float h) = Inr x \<Longrightarrow> fst (set_gauge h upd l arg s) = Inr ()"
  by (simp add: set_gauge_def Let_def)

lemma seq_returns:
  "fst m = Inr () \<Longrightarrow> (\<And>s. fst (k s) = Inr ()) \<Longrightarrow> fst (seq m k) = Inr ()"
  by (cases m) (auto simp: seq_def)

lemma publish_readable:
  assumes "readable h r"
  shows "fst (publish h (Some r) l s) = Inr ()"
proof -
  obtain v where i: "and_then (Result_server_info h r) (Info_info h) = Inr v"
    using assms returnsE [of "and_then (Result_server_info h r) (Info_info h)"]
    by (auto simp: readable_def)
  obtain a where a: "and_then (Result_latency r) (py_float h) = Inr a"
    using assms returnsE [of "and_then (Result_latency r) (py_float h)"]
    by (auto simp: readable_def)
  obtain b where b: "and_then (Result_jitter r) (py_float h) = Inr b"
    using assms returnsE [of "and_then (Result_jitter r) (py_float h)"]
    by (auto simp: readable_def)
  obtain c where c: "and_then (Result_download_speed r) (py_float h) = Inr c"
    using assms returnsE [of "and_then (Result_download_speed r) (py_float h)"]
    by (auto simp: readable_def)
  obtain d where d: "and_then (Result_upload_speed r) (py_float h) = Inr d"
    using assms returnsE [of "and_then (Result_upload_speed r) (py_float h)"]
    by (auto simp: readable_def)
  show ?thesis
    unfolding publish_def
    apply (rule seq_returns)
     apply (simp add: set_info_def i)
    apply (rule seq_returns)
     apply (simp add: set_gauge_returns [OF a])
    apply (rule seq_returns)
     apply (simp add: set_gauge_returns [OF b])
    apply (rule seq_returns)
     apply (simp add: set_gauge_returns [OF c])
    apply (rule seq_returns)
     apply (simp add: set_gauge_returns [OF d])
    apply (rule seq_returns)
     apply (simp add: set_gauge_def and_then_def)
    apply simp
    done
qed

lemma quiet_payload_returns:
  assumes "quiet_payload h d"
  shows "\<exists>s1. execTest_payload d s = (Inr None, s1) \<or>
           (\<exists>r. execTest_payload d s = (Inr (Some r), s1) \<and> readable h r)"
proof (cases d)
  case (JDict kvs)
  show ?thesis
  proof (cases "map_of kvs ''error''")
    case (Some v)
    then show ?thesis
      using JDict by (auto simp: payload_error)
  next
    case None
    note no_error = None
    show ?thesis
    proof (cases "map_of kvs ''type''")
      case None
      then show ?thesis
        using JDict no_error by (auto simp: payload_no_type)
    next
      case (Some t)
      consider "t = JStr ''log''" | "t = JStr ''result''"
        | "t \<noteq> JStr ''log''" "t \<noteq> JStr ''result''"
        by blast
      then show ?thesis
      proof cases
        case 1
        then obtain ts msg where
          "map_of kvs ''timestamp'' = Some ts" "map_of kvs ''message'' = Some msg"
          using assms JDict no_error Some by (auto simp: quiet_payload_def)
        then show ?thesis
          using 1 JDict no_error Some by (auto simp: payload_log)
      next
        case 2
        then have "readable h (Result d)"
          using assms JDict no_error Some by (simp add: quiet_payload_def)
        then show ?thesis
          using 2 JDict no_error Some by (auto simp: payload_result)
      next
        case 3
        then show ?thesis
          using JDict no_error Some by (auto simp: payload_other)
      qed
    qed
  qed
next
  case (JList xs)
  then show ?thesis
    using assms by (auto simp: quiet_payload_def execTest_payload_def)
next
  case (JStr x)
  then show ?thesis
    using assms by (auto simp: quiet_payload_def execTest_payload_def)
qed (use assms in \<open>simp_all add: quiet_payload_def\<close>)

lemma quiet_attempt_execTest:
  assumes t: "timeout_of h = Inr t"
    and q: "quiet_attempt h (check_output h (length (invoked s)) (build_cmd sid) t)"
  shows "\<exists>s1. execTest h sid s = (Inr None, s1) \<or>
           (\<exists>r. execTest h sid s = (Inr (Some r), s1) \<and> readable h r)"
proof (cases "check_output h (length (invoked s)) (build_cmd sid) t")
  case (Completed raw)
  show ?thesis
  proof (cases "json_loads h raw")
    case None
    then show ?thesis
      using t Completed by (simp add: execTest_completed)
  next
    case (Some d)
    then have "quiet_payload h d"
      using q Completed by (simp add: quiet_attempt_def quiet_output_def)
    then show ?thesis
      using t Completed Some quiet_payload_returns [of h d "started sid t s"]
      by (simp add: execTest_completed)
  qed
next
  case (CalledProcessError raw)
  show ?thesis
  proof (cases "json_loads h raw")
    case None
    then show ?thesis
      using t CalledProcessError by (simp add: execTest_called_process_error)
  next
    case (Some d)
    then have "quiet_payload h d"
      using q CalledProcessError by (simp add: quiet_attempt_def quiet_output_def)
    then show ?thesis
      using t CalledProcessError Some quiet_payload_returns [of h d "started sid t s"]
      by (simp add: execTest_called_process_error)
  qed
next
  case TimeoutExpired
  then show ?thesis
    using t by (simp add: execTest_timeout)
next
  case (Raised e)
  then show ?thesis
    using q by (simp add: quiet_attempt_def)
qed

lemma quiet_attempt_runTest:
  assumes t: "timeout_of h = Inr t"
    and q: "quiet_attempt h (check_output h (length (invoked s)) (build_cmd sid) t)"
  shows "fst (runTest h sid s) = Inr ()"
proof -
  obtain s1 where "execTest h sid s = (Inr None, s1) \<or>
      (\<exists>r. execTest h sid s = (Inr (Some r), s1) \<and> readable h r)"
    using quiet_attempt_execTest [OF t q] by blast
  then show ?thesis
  proof
    assume "execTest h sid s = (Inr None, s1)"
    then show ?thesis
      by (simp add: runTest_failed)
  next
    assume "\<exists>r. execTest h sid s = (Inr (Some r), s1) \<and> readable h r"
    then obtain r where ex: "execTest h sid s = (Inr (Some r), s1)" and r: "readable h r"
      by blast
    obtain l where "label_of h (Some r) sid = Inr l"
      using readable_label [OF r] by blast
    then show ?thesis
      using ex publish_readable [OF r] by (simp add: runTest_def)
  qed
qed

lemma run_targets_quiet:
  assumes t: "timeout_of h = Inr t"
    and q: "\<forall>i cmd. quiet_attempt h (check_output h i cmd t)"
    and c: "list_all (\<lambda>x. int_of_str h x \<noteq> None) xs"
  shows "fst (run_targets h xs s) = Inr () \<and>
         invoked (snd (run_targets h xs s)) =
           invoked s @ map (\<lambda>x. (build_cmd (int_of_str h x), t)) xs"
  using c
proof (induction xs arbitrary: s)
  case Nil
  then show ?case by simp
next
  case (Cons x xs)
  then obtain n where n: "int_of_str h x = Some n"
    by auto
  have "fst (runTest h (Some n) s) = Inr ()"
    using quiet_attempt_runTest [OF t] q by blast
  then obtain s1 where run: "runTest h (Some n) s = (Inr (), s1)"
    by (cases "runTest h (Some n) s") simp
  then have inv: "invoked s1 = invoked s @ [(build_cmd (Some n), t)]"
    using runTest_fields [OF t, of "Some n" s] by simp
  have "list_all (\<lambda>x. int_of_str h x \<noteq> None) xs"
    using Cons.prems by simp
  then show ?case
    using Cons.IH [of s1] n run inv by (simp add: seq_def)
qed

lemma refresh_quiet:
  assumes t: "timeout_of h = Inr t"
    and q: "\<forall>i cmd. quiet_attempt h (check_output h i cmd t)"
    and c: "targets_convert h"
  shows "fst (refresh h s) = Inr ()"
proof -
  have single: "fst (runTest h None s) = Inr ()"
    using quiet_attempt_runTest [OF t] q by blast
  show ?thesis
    using single c run_targets_quiet [OF t q, of _ s]
    by (auto simp: refresh_def targets_convert_def split: option.splits)
qed

lemma updateResults_quiet:
  assumes t: "timeout_of h = Inr t"
    and q: "\<forall>i cmd. quiet_attempt h (check_output h i cmd t)"
    and c: "targets_convert h"
    and d: "returns (datetime_add h now' (cache_seconds s))"
  shows "fst (updateResults h now now' s) = Inr ()"
proof (cases "cache_until s < now")
  case False
  then show ?thesis
    by (simp add: updateResults_def)
next
  case True
  obtain s1 where r: "refresh h s = (Inr (), s1)"
    using refresh_quiet [OF t q c, of s] by (cases "refresh h s") simp
  have "cache_seconds s1 = cache_seconds s"
    using refresh_cache [of h s] r by simp
  then have "fst (assign_cache_until h now' s1) = Inr ()"
    using d by (simp add: assign_cache_until_def returns_def split: sum.splits)
  then show ?thesis
    using updateResults_cases [OF True r, of now'] by simp
qed

section \<open>Facts about the examples\<close>

lemma example_loads_values:
  "example_loads raw_result = Some json_result"
  "example_loads raw_log = Some json_log"
  "example_loads raw_error = Some json_error"
  "example_loads raw_other = Some json_other"
  "example_loads raw_untyped = Some (JDict [])"
  "example_loads raw_truncated = Some json_truncated"
  "example_loads raw_text = None"
  by (simp_all add: example_loads_def raw_result_def raw_log_def raw_error_def
      raw_other_def raw_untyped_def raw_truncated_def raw_text_def)

lemma example_host_fields:
  "json_loads (example_host outs servers) = example_loads"
  "check_output (example_host outs servers) i cmd t =
     (if i < length outs then outs ! i else TimeoutExpired)"
  "environ (example_host outs servers) ''SPEEDTEST_SERVER'' = servers"
  "timeout_of (example_host outs servers) = Inr 90"
  "local_epoch (example_host outs servers) = 62135596800000000"
  by (simp_all add: example_host_def timeout_of_def)

lemma assign_cache_until_example:
  assumes "local_epoch h = 62135596800000000"
    and "0 \<le> now'" and "now' \<le> 1000000000000"
    and "0 \<le> cache_seconds s" and "cache_seconds s \<le> 86400"
  shows "assign_cache_until h now' s =
           (Inr (), s\<lparr>cache_until := now' + cache_seconds s * 1000000\<rparr>)"
proof -
  have "0 div 86400 \<le> cache_seconds s div 86400"
    using assms(4) by (intro zdiv_mono1) simp_all
  moreover have "cache_seconds s div 86400 \<le> 86400 div 86400"
    using assms(5) by (intro zdiv_mono1) simp_all
  ultimately have "timedelta_ok (cache_seconds s)"
    by (simp add: timedelta_ok_def)
  moreover have "datetime_ok h (now' + cache_seconds s * 1000000)"
    using assms by (simp add: datetime_ok_def)
  ultimately show ?thesis
    by (simp add: assign_cache_until_def datetime_add_def)
qed

lemma updateResults_refreshed:
  assumes "cache_until s < now" and "refresh h s = (Inr (), s1)"
    and "local_epoch h = 62135596800000000"
    and "0 \<le> now'" and "now' \<le> 1000000000000"
    and "0 \<le> cache_seconds s" and "cache_seconds s \<le> 86400"
  shows "updateResults h now now' s =
           (Inr (), s1\<lparr>cache_until := now' + cache_seconds s * 1000000\<rparr>)"
proof -
  have k: "cache_seconds s1 = cache_seconds s"
    using refresh_cache [of h s] assms(2) by simp
  show ?thesis
    using updateResults_cases [OF assms(1,2), of now']
      assign_cache_until_example [of h now' s1] assms(3-7) k
    by simp
qed

lemma cache_seconds_kept [simp]:
  "cache_seconds (failure_sentinel l s) = cache_seconds s"
  "cache_seconds (print e s) = cache_seconds s"
  "cache_seconds (logging e s) = cache_seconds s"
  "cache_seconds (started sid t s) = cache_seconds s"
  by (simp_all add: failure_sentinel_def print_def logging_def started_def)

lemma example_int_of_str:
  "int_of_str (example_host outs servers) ''0'' = Some 0"
  "int_of_str (example_host outs servers) ''1'' = Some 1"
  "int_of_str (example_host outs servers) ''2'' = Some 2"
  "int_of_str (example_host outs servers) ''7'' = Some 7"
  by (simp_all add: example_host_def)

lemma publish_example_result:
  "publish h (Some (Result json_result)) ''7'' s =
     (Inr (),
      logging (Log_info (Result json_result))
        (s\<lparr>info := (info s)(''7'' \<mapsto>
               [(''id'', JStr ''7''), (''name'', JStr ''Acme''), (''location'', JStr ''Oslo''),
                (''country'', JStr ''Norway'')]),
           ping := (ping s)(''7'' \<mapsto> 5.5),
           jitter := (jitter s)(''7'' \<mapsto> 1),
           download_speed := (download_speed s)(''7'' \<mapsto> 800),
           upload_speed := (upload_speed s)(''7'' \<mapsto> 400),
           up := (up s)(''7'' \<mapsto> 1)\<rparr>))"
  by (cases s)
     (simp add: publish_def set_info_def set_gauge_def seq_def and_then_def labels_then_set
      logging_def Result_server_info_def Result_server_id_def Result_server_name_def Result_latency_def
      Result_jitter_def Result_download_speed_def Result_upload_speed_def field_def
      json_result_def str_int_7 set_after_labels Info_info_def)

lemma label_of_example_result: "label_of h (Some (Result json_result)) sid = Inr ''7''"
  by (simp add: label_of_def Result_server_id_def field_def and_then_def json_result_def
      str_int_7)

lemma payload_example_result:
  "execTest_payload json_result s = (Inr (Some (Result json_result)), s)"
  unfolding json_result_def by (rule payload_result) simp_all

lemma execTest_example_result:
  assumes "check_output h (length (invoked s)) (build_cmd sid) 90 = Completed raw_result"
    and "timeout_of h = Inr 90" and "json_loads h = example_loads"
  shows "execTest h sid s = (Inr (Some (Result json_result)), started sid 90 s)"
  using assms
  by (simp add: execTest_completed example_loads_values payload_example_result)

lemma runTest_example_result:
  assumes "check_output h (length (invoked s)) (build_cmd sid) 90 = Completed raw_result"
    and "timeout_of h = Inr 90" and "json_loads h = example_loads"
  shows "runTest h sid s =
           publish h (Some (Result json_result)) ''7'' (started sid 90 s)"
  by (simp add: runTest_def execTest_example_result [OF assms] label_of_example_result)

lemma readable_example_result: "readable h (Result json_result)"
  by (simp add: readable_def returns_def and_then_def Result_server_info_def
      Result_server_id_def Result_server_name_def Result_latency_def Result_jitter_def
      Result_download_speed_def Result_upload_speed_def field_def json_result_def
      Info_info_def)

lemma first_request:
  "fst (updateResults log_after_result 1 2 (initial 0)) = Inr () \<and>
   published measured ''7'' =
     (Some 1, Some 5.5, Some 1, Some 800, Some 400,
      Some [(''id'', JStr ''7''), (''name'', JStr ''Acme''), (''location'', JStr ''Oslo''),
            (''country'', JStr ''Norway'')]) \<and>
   cache_until measured = 2 \<and>
   invoked measured = [(build_cmd (Some 7), 90)]"
proof -
  let ?h = "log_after_result"
  have fields: "json_loads ?h = example_loads" "timeout_of ?h = Inr 90"
    "environ ?h ''SPEEDTEST_SERVER'' = Some ''7''" "int_of_str ?h ''7'' = Some 7"
    by (simp_all add: log_after_result_def example_host_fields example_int_of_str)
  have c: "check_output ?h (length (invoked (initial 0))) (build_cmd (Some 7)) 90 =
      Completed raw_result"
    by (simp add: log_after_result_def example_host_fields initial_def)
  have run: "runTest ?h (Some 7) (initial 0) =
      publish ?h (Some (Result json_result)) ''7'' (started (Some 7) 90 (initial 0))"
    by (rule runTest_example_result [OF c]) (simp_all add: fields)
  have stale: "cache_until (initial 0) < 1"
    by (simp add: initial_def)
  have r: "refresh ?h (initial 0) =
      (Inr (), snd (publish ?h (Some (Result json_result)) ''7''
         (started (Some 7) 90 (initial 0))))"
    by (simp add: refresh_def fields run publish_example_result seq_def)
  have e: "local_epoch ?h = 62135596800000000"
    by (simp add: log_after_result_def example_host_fields)
  have "updateResults ?h 1 2 (initial 0) =
      (Inr (), (snd (publish ?h (Some (Result json_result)) ''7''
         (started (Some 7) 90 (initial 0))))\<lparr>cache_until := 2\<rparr>)"
    using updateResults_refreshed [OF stale r e, of 2] by (simp add: initial_def)
  then show ?thesis
    by (simp add: measured_def publish_example_result)
       (simp add: published_def logging_def started_def initial_def)
qed

lemma first_scrape:
  assumes "0 \<le> n" and "n \<le> 86400"
  shows
  "fst (updateResults log_after_result 1 2 (initial n)) = Inr () \<and>
   published (snd (updateResults log_after_result 1 2 (initial n))) ''7'' =
     (Some 1, Some 5.5, Some 1, Some 800, Some 400,
      Some [(''id'', JStr ''7''), (''name'', JStr ''Acme''), (''location'', JStr ''Oslo''),
            (''country'', JStr ''Norway'')]) \<and>
   invoked (snd (updateResults log_after_result 1 2 (initial n))) = [(build_cmd (Some 7), 90)]"
proof -
  let ?h = "log_after_result"
  have fields: "json_loads ?h = example_loads" "timeout_of ?h = Inr 90"
    "environ ?h ''SPEEDTEST_SERVER'' = Some ''7''" "int_of_str ?h ''7'' = Some 7"
    by (simp_all add: log_after_result_def example_host_fields example_int_of_str)
  have c: "check_output ?h (length (invoked (initial n))) (build_cmd (Some 7)) 90 =
      Completed raw_result"
    by (simp add: log_after_result_def example_host_fields initial_def)
  have run: "runTest ?h (Some 7) (initial n) =
      publish ?h (Some (Result json_result)) ''7'' (started (Some 7) 90 (initial n))"
    by (rule runTest_example_result [OF c]) (simp_all add: fields)
  have stale: "cache_until (initial n) < 1"
    by (simp add: initial_def)
  have r: "refresh ?h (initial n) =
      (Inr (), snd (publish ?h (Some (Result json_result)) ''7''
         (started (Some 7) 90 (initial n))))"
    by (simp add: refresh_def fields run publish_example_result seq_def)
  have e: "local_epoch ?h = 62135596800000000"
    by (simp add: log_after_result_def example_host_fields)
  have "updateResults ?h 1 2 (initial n) =
      (Inr (), (snd (publish ?h (Some (Result json_result)) ''7''
         (started (Some 7) 90 (initial n))))\<lparr>cache_until := 2 + n * 1000000\<rparr>)"
    using updateResults_refreshed [OF stale r e, of 2] assms by (simp add: initial_def)
  then show ?thesis
    by (simp add: publish_example_result)
       (simp add: published_def logging_def started_def initial_def)
qed

lemma log_attempt_example:
  "log_attempt log_after_result (Completed raw_log)"
  by (simp add: log_attempt_def log_output_def log_after_result_def example_host_fields
      example_loads_values json_log_def log_payload_def)

lemma second_request:
  "fst (updateResults log_after_result 3 4 measured) = Inr () \<and>
   published (snd (updateResults log_after_result 3 4 measured)) ''7'' =
     (Some 0, Some 0, Some 0, Some 0, Some 0, Some [])"
proof -
  let ?h = "log_after_result"
  have fields: "timeout_of ?h = Inr 90"
    "environ ?h ''SPEEDTEST_SERVER'' = Some ''7''" "int_of_str ?h ''7'' = Some 7"
    by (simp_all add: log_after_result_def example_host_fields example_int_of_str)
  have c: "check_output ?h (length (invoked measured)) (build_cmd (Some 7)) 90 =
      Completed raw_log"
    using first_request by (simp add: log_after_result_def example_host_fields)
  obtain ts msg where "execTest ?h (Some 7) measured =
      (Inr None, print (Print_log ts msg) (started (Some 7) 90 measured))"
    using log_attempt_execTest [OF fields(1), of measured "Some 7"] c log_attempt_example
    by auto
  then have "runTest ?h (Some 7) measured =
      (Inr (), failure_sentinel ''7'' (print (Print_log ts msg) (started (Some 7) 90 measured)))"
    using runTest_failed [of ?h "Some 7" measured]
    by (simp add: requested_label_def str_int_7)
  then have r: "refresh ?h measured =
      (Inr (), failure_sentinel ''7'' (print (Print_log ts msg) (started (Some 7) 90 measured)))"
    by (simp add: refresh_def fields seq_def)
  have stale: "cache_until measured < 3"
    using first_request by simp
  have e: "local_epoch ?h = 62135596800000000"
    by (simp add: log_after_result_def example_host_fields)
  have k: "cache_seconds measured = 0"
    using updateResults_cache_until(2) [of "initial 0" 1 ?h 2]
    by (simp add: measured_def initial_def)
  show ?thesis
    using updateResults_refreshed [OF stale r e, of 4] k
    by (simp add: published_sentinel)
qed

lemma updateResults_example_zero:
  "updateResults (example_host [TimeoutExpired] (Some ''0'')) 1 2 (initial 0) =
     (Inr (),
      (failure_sentinel ''unknown''
        (logging (Log_error ''Speedtest CLI process took too long to complete and was killed.'')
           (started (Some 0) 90 (initial 0))))\<lparr>cache_until := 2\<rparr>)"
proof -
  have ex: "execTest (example_host [TimeoutExpired] (Some ''0'')) (Some 0) (initial 0) =
     (Inr None,
      logging (Log_error ''Speedtest CLI process took too long to complete and was killed.'')
        (started (Some 0) 90 (initial 0)))"
    by (simp add: execTest_timeout example_host_fields initial_def)
  have int0: "int_of_str (example_host [TimeoutExpired] (Some ''0'')) ''0'' = Some 0"
    by (simp add: example_host_def)
  have r: "refresh (example_host [TimeoutExpired] (Some ''0'')) (initial 0) =
     (Inr (),
      failure_sentinel ''unknown''
        (logging (Log_error ''Speedtest CLI process took too long to complete and was killed.'')
           (started (Some 0) 90 (initial 0))))"
    using runTest_failed [OF ex]
    by (simp add: refresh_def example_host_fields int0 seq_def requested_label_def)
  have stale: "cache_until (initial 0) < 1"
    by (simp add: initial_def)
  show ?thesis
    using updateResults_refreshed [OF stale r example_host_fields(5), of 2]
    by (simp add: initial_def)
qed

lemma timeout_then_result_quiet:
  "quiet_attempt timeout_then_result (check_output timeout_then_result i cmd t)"
proof -
  have "quiet_payload timeout_then_result json_result"
    using readable_example_result [of timeout_then_result]
    by (simp add: quiet_payload_def json_result_def)
  then have "quiet_attempt timeout_then_result (Completed raw_result)"
    by (simp add: quiet_attempt_def quiet_output_def timeout_then_result_def
        example_host_fields example_loads_values)
  moreover have "quiet_attempt timeout_then_result TimeoutExpired"
    by (simp add: quiet_attempt_def)
  moreover have "i = 0 \<or> i = 1 \<or> 2 \<le> i"
    by arith
  ultimately show ?thesis
    by (auto simp: timeout_then_result_def example_host_fields)
qed

lemma timeout_then_result_fields:
  "timeout_of timeout_then_result = Inr 90"
  "json_loads timeout_then_result = example_loads"
  "environ timeout_then_result ''SPEEDTEST_SERVER'' = Some ''1,2''"
  "int_of_str timeout_then_result ''1'' = Some 1"
  "int_of_str timeout_then_result ''2'' = Some 2"
  "local_epoch timeout_then_result = 62135596800000000"
  by (simp_all add: timeout_then_result_def example_host_fields example_int_of_str)

lemma timeout_then_result_scrape:
  "published (snd (updateResults timeout_then_result 1 2 (initial 0))) ''1'' =
     (Some 0, Some 0, Some 0, Some 0, Some 0, Some []) \<and>
   published (snd (updateResults timeout_then_result 1 2 (initial 0))) ''7'' =
     (Some 1, Some 5.5, Some 1, Some 800, Some 400,
      Some [(''id'', JStr ''7''), (''name'', JStr ''Acme''), (''location'', JStr ''Oslo''),
            (''country'', JStr ''Norway'')])"
proof -
  let ?h = timeout_then_result
  let ?s1 = "logging
      (Log_error ''Speedtest CLI process took too long to complete and was killed.'')
      (started (Some 1) 90 (initial 0))"
  have "check_output ?h (length (invoked (initial 0))) (build_cmd (Some 1)) 90 = TimeoutExpired"
    by (simp add: timeout_then_result_def example_host_fields initial_def)
  then have "execTest ?h (Some 1) (initial 0) = (Inr None, ?s1)"
    by (simp add: execTest_timeout timeout_then_result_fields)
  then have one: "runTest ?h (Some 1) (initial 0) = (Inr (), failure_sentinel ''1'' ?s1)"
    using runTest_failed [of ?h "Some 1" "initial 0" ?s1]
    by (simp add: requested_label_def str_int_1)
  have "check_output ?h (length (invoked (failure_sentinel ''1'' ?s1))) (build_cmd (Some 2)) 90 =
      Completed raw_result"
    by (simp add: timeout_then_result_def example_host_fields initial_def
        failure_sentinel_def logging_def started_def)
  then have two: "runTest ?h (Some 2) (failure_sentinel ''1'' ?s1) =
      publish ?h (Some (Result json_result)) ''7''
        (started (Some 2) 90 (failure_sentinel ''1'' ?s1))"
    by (rule runTest_example_result) (simp_all add: timeout_then_result_fields)
  have stale: "cache_until (initial 0) < 1"
    by (simp add: initial_def)
  have r: "refresh ?h (initial 0) =
      (Inr (), snd (publish ?h (Some (Result json_result)) ''7''
         (started (Some 2) 90 (failure_sentinel ''1'' ?s1))))"
    by (simp add: refresh_def timeout_then_result_fields one two publish_example_result
        seq_def)
  have "updateResults ?h 1 2 (initial 0) =
      (Inr (), (snd (publish ?h (Some (Result json_result)) ''7''
         (started (Some 2) 90 (failure_sentinel ''1'' ?s1))))\<lparr>cache_until := 2\<rparr>)"
    using updateResults_refreshed [OF stale r timeout_then_result_fields(6), of 2]
    by (simp add: initial_def)
  then show ?thesis
    by (simp add: publish_example_result)
       (simp add: published_def logging_def started_def initial_def failure_sentinel_def)
qed

lemma truncated_then_result_fields:
  "timeout_of truncated_then_result = Inr 90"
  "json_loads truncated_then_result = example_loads"
  "environ truncated_then_result ''SPEEDTEST_SERVER'' = Some ''1,2''"
  "int_of_str truncated_then_result ''1'' = Some 1"
  "int_of_str truncated_then_result ''2'' = Some 2"
  by (simp_all add: truncated_then_result_def example_host_fields example_int_of_str)

lemma truncated_then_result_scrape:
  "updateResults truncated_then_result 1 2 (initial 0) =
     (Inl (KeyError ''server''), started (Some 1) 90 (initial 0))"
proof -
  let ?h = truncated_then_result
  have "check_output ?h (length (invoked (initial 0))) (build_cmd (Some 1)) 90 =
      Completed raw_truncated"
    by (simp add: truncated_then_result_def example_host_fields initial_def)
  then have "execTest ?h (Some 1) (initial 0) =
      (Inr (Some (Result json_truncated)), started (Some 1) 90 (initial 0))"
    by (simp add: execTest_completed truncated_then_result_fields example_loads_values
        json_truncated_def payload_result)
  moreover have "label_of ?h (Some (Result json_truncated)) (Some 1) = Inl (KeyError ''server'')"
    by (simp add: label_of_def Result_server_id_def field_def and_then_def json_truncated_def)
  ultimately have "runTest ?h (Some 1) (initial 0) =
      (Inl (KeyError ''server''), started (Some 1) 90 (initial 0))"
    by (simp add: runTest_def)
  moreover have "cache_until (initial 0) < 1"
    by (simp add: initial_def)
  ultimately show ?thesis
    by (simp add: updateResults_def refresh_def truncated_then_result_fields seq_def)
qed

section \<open>Payloads that are no result\<close>

text \<open>
  C1, as amended. For every decoded payload whose type is not exactly \<^verbatim>\<open>result\<close> (a
  missing type and a payload that is no object included), neither \<^verbatim>\<open>Result.parse\<close> nor the
  payload handling of \<open>execTest\<close> produces a \<open>Result\<close>. \<^verbatim>\<open>Result.parse\<close> returns \<^verbatim>\<open>None\<close>
  for an object that has a type. \<open>execTest\<close> returns \<^verbatim>\<open>None\<close> for an object with an \<^verbatim>\<open>error\<close>
  member, after printing it (explicit error); for an object of type \<^verbatim>\<open>log\<close> that has a
  timestamp and a message, after printing them (log notice); and, printing nothing,
  for an object of any other type or of no type (invalid).
\<close>

theorem non_result_payload_is_no_measurement:
  assumes "py_getitem d ''type'' \<noteq> Inr (JStr ''result'')"
  shows "(\<forall>r. Result_parse d \<noteq> Inr (Some r)) \<and>
         (\<forall>r. fst (execTest_payload d s) \<noteq> Inr (Some r)) \<and>
         (\<forall>kvs t. d = JDict kvs \<and> map_of kvs ''type'' = Some t \<longrightarrow>
            Result_parse d = Inr None) \<and>
         (\<forall>kvs v. d = JDict kvs \<and> map_of kvs ''error'' = Some v \<longrightarrow>
            execTest_payload d s =
              (Inr None,
               print (Print_value v) (print (Print_text ''Something went wrong'') s))) \<and>
         (\<forall>kvs ts msg. d = JDict kvs \<and> map_of kvs ''error'' = None \<and>
              map_of kvs ''type'' = Some (JStr ''log'') \<and>
              map_of kvs ''timestamp'' = Some ts \<and> map_of kvs ''message'' = Some msg \<longrightarrow>
            execTest_payload d s = (Inr None, print (Print_log ts msg) s)) \<and>
         (\<forall>kvs. d = JDict kvs \<and> map_of kvs ''error'' = None \<and>
              map_of kvs ''type'' \<noteq> Some (JStr ''log'') \<longrightarrow>
            execTest_payload d s = (Inr None, s))"
proof -
  have "Result_parse d = Inr None" if "d = JDict kvs \<and> map_of kvs ''type'' = Some t" for kvs t
    using that assms by (simp add: Result_parse_other_kind)
  moreover have "execTest_payload d s = (Inr None, s)"
    if "d = JDict kvs \<and> map_of kvs ''error'' = None \<and>
        map_of kvs ''type'' \<noteq> Some (JStr ''log'')" for kvs
  proof (cases "map_of kvs ''type''")
    case None
    with that show ?thesis by (simp add: payload_no_type)
  next
    case (Some t)
    with that assms show ?thesis by (simp add: payload_other)
  qed
  ultimately show ?thesis
    using Result_parse_not_result [OF assms] payload_not_result [OF assms]
    by (auto simp: payload_error payload_log)
qed

text \<open>
  The statement at a log payload, an error payload, a payload of another type and the
  empty object.
\<close>

theorem non_result_payload_is_no_measurement_witness:
  "Result_parse json_log = Inr None \<and>
   execTest_payload json_log (initial 0) =
     (Inr None,
      print (Print_log (JStr ''2024-01-01T00:00:00Z'') (JStr ''No servers defined''))
        (initial 0)) \<and>
   execTest_payload json_error (initial 0) =
     (Inr None,
      print (Print_value (JStr ''Cannot open socket''))
        (print (Print_text ''Something went wrong'') (initial 0))) \<and>
   Result_parse json_other = Inr None \<and>
   execTest_payload json_other (initial 0) = (Inr None, initial 0) \<and>
   execTest_payload (JDict []) (initial 0) = (Inr None, initial 0)"
  using non_result_payload_is_no_measurement [of json_log "initial 0"]
    non_result_payload_is_no_measurement [of json_error "initial 0"]
    non_result_payload_is_no_measurement [of json_other "initial 0"]
    non_result_payload_is_no_measurement [of "JDict []" "initial 0"]
  by (simp add: json_log_def json_error_def json_other_def)

text \<open>
  C1 as the specification states it has every such payload end in a classification.
  \<^verbatim>\<open>Result.parse\<close> catches \<^verbatim>\<open>ValueError\<close> only: on the empty object the subscript
  \<^verbatim>\<open>data["type"]\<close> raises \<^verbatim>\<open>KeyError\<close>, which leaves \<^verbatim>\<open>Result.parse\<close>. And a payload of type
  \<^verbatim>\<open>log\<close> without a timestamp raises \<^verbatim>\<open>KeyError\<close> in \<open>execTest\<close>.
\<close>

theorem missing_kind_counterexample:
  "Result_parse (JDict []) = Inl (KeyError ''type'') \<and>
   fst (execTest_payload (JDict [(''type'', JStr ''log'')]) (initial 0)) =
     Inl (KeyError ''timestamp'')"
  by (simp add: Result_parse_no_kind execTest_payload_def print_log_def)

section \<open>A payload of type log\<close>

text \<open>
  C2, as amended. When the output of an attempt decodes to a payload of type \<^verbatim>\<open>log\<close>
  (an object without an \<^verbatim>\<open>error\<close> member, with a timestamp and a message), the timestamp
  and the message are printed, nothing is written to the log, and the attempt is
  published as a failed one: the failure sentinel is written under the label of the
  request. What is published under every other label stays as it was.
\<close>

theorem log_payload_publishes_sentinel:
  assumes "timeout_of h = Inr t"
    and "log_attempt h (check_output h (length (invoked s)) (build_cmd sid) t)"
  shows "(\<exists>ts msg.
            runTest h sid s =
              (Inr (), failure_sentinel (requested_label sid)
                 (print (Print_log ts msg) (started sid t s)))) \<and>
         published (snd (runTest h sid s)) (requested_label sid) =
           (Some 0, Some 0, Some 0, Some 0, Some 0, Some []) \<and>
         (\<forall>l. l \<noteq> requested_label sid \<longrightarrow>
            published (snd (runTest h sid s)) l = published s l) \<and>
         logged (snd (runTest h sid s)) = logged s"
proof -
  obtain ts msg where
    ex: "execTest h sid s = (Inr None, print (Print_log ts msg) (started sid t s))"
    using log_attempt_execTest [OF assms] by blast
  have run: "runTest h sid s =
      (Inr (), failure_sentinel (requested_label sid)
         (print (Print_log ts msg) (started sid t s)))"
    using runTest_failed [OF ex] .
  have "published (snd (runTest h sid s)) l = published s l"
    if "l \<noteq> requested_label sid" for l
    using that by (simp add: run published_sentinel)
  moreover have "logged (snd (runTest h sid s)) = logged s"
    by (simp add: run failure_sentinel_def print_def started_def)
  moreover have "published (snd (runTest h sid s)) (requested_label sid) =
      (Some 0, Some 0, Some 0, Some 0, Some 0, Some [])"
    by (simp add: run published_sentinel)
  ultimately show ?thesis
    using run by blast
qed

text \<open>
  The amended statement on the host whose tool reports a result and then a log payload,
  at the attempt that follows the first scrape.
\<close>

theorem log_payload_publishes_sentinel_witness:
  "log_attempt log_after_result (Completed raw_log) \<and>
   published (snd (runTest log_after_result (Some 7) measured)) ''7'' =
     (Some 0, Some 0, Some 0, Some 0, Some 0, Some []) \<and>
   published (snd (runTest log_after_result (Some 7) measured)) ''unknown'' =
     published measured ''unknown'' \<and>
   logged (snd (runTest log_after_result (Some 7) measured)) = logged measured"
proof -
  have t: "timeout_of log_after_result = Inr 90"
    by (simp add: log_after_result_def example_host_fields)
  have c: "check_output log_after_result (length (invoked measured)) (build_cmd (Some 7)) 90 =
      Completed raw_log"
    using first_request by (simp add: log_after_result_def example_host_fields)
  have l: "log_attempt log_after_result
      (check_output log_after_result (length (invoked measured)) (build_cmd (Some 7)) 90)"
    using log_attempt_example c by simp
  have r: "requested_label (Some 7) = ''7''"
    by (simp add: requested_label_def str_int_7)
  show ?thesis
    using log_payload_publishes_sentinel [OF t l] log_attempt_example r
    by simp
qed

text \<open>
  C2 as the specification states it has a log payload leave every published value
  unchanged. With \<^verbatim>\<open>SPEEDTEST_SERVER=7\<close>, a first scrape publishes a measurement under the
  label \<^verbatim>\<open>7\<close>; at the second scrape the tool reports a log payload, and the values
  under \<^verbatim>\<open>7\<close> become the failure sentinel.
\<close>

theorem log_payload_overwrites_counterexample:
  "log_attempt log_after_result (Completed raw_log) \<and>
   published measured ''7'' =
     (Some 1, Some 5.5, Some 1, Some 800, Some 400,
      Some [(''id'', JStr ''7''), (''name'', JStr ''Acme''), (''location'', JStr ''Oslo''),
            (''country'', JStr ''Norway'')]) \<and>
   published (snd (updateResults log_after_result 3 4 measured)) ''7'' =
     (Some 0, Some 0, Some 0, Some 0, Some 0, Some [])"
  using log_attempt_example first_request second_request by simp

section \<open>A failed attempt\<close>

text \<open>
  C3, as amended. For every failed attempt (a timeout, an output that does not decode,
  or a payload object with an \<^verbatim>\<open>error\<close> member), \<open>execTest\<close> returns no result and leaves
  the instruments alone, and \<open>runTest\<close> writes the failure sentinel: up flag, latency,
  jitter, download and upload 0 and an empty target info. The label is the decimal
  text of the requested identifier when that is an integer other than 0, and
  \<^verbatim>\<open>unknown\<close> when no identifier was requested or the requested identifier is 0.
\<close>

theorem failed_attempt_publishes_sentinel:
  assumes "timeout_of h = Inr t"
    and "failed_attempt h (check_output h (length (invoked s)) (build_cmd sid) t)"
  shows "(\<exists>s1. execTest h sid s = (Inr None, s1) \<and> published s1 = published s \<and>
               runTest h sid s = (Inr (), failure_sentinel (requested_label sid) s1)) \<and>
         published (snd (runTest h sid s)) (requested_label sid) =
           (Some 0, Some 0, Some 0, Some 0, Some 0, Some []) \<and>
         requested_label sid =
           (case sid of None \<Rightarrow> ''unknown''
            | Some n \<Rightarrow> if n = 0 then ''unknown'' else str_int n)"
proof -
  obtain s1 where ex: "execTest h sid s = (Inr None, s1)"
    using failed_attempt_execTest [OF assms] by blast
  have run: "runTest h sid s = (Inr (), failure_sentinel (requested_label sid) s1)"
    using runTest_failed [OF ex] .
  have "published s1 = published s"
    using published_execTest [OF ex] .
  moreover have "published (snd (runTest h sid s)) (requested_label sid) =
      (Some 0, Some 0, Some 0, Some 0, Some 0, Some [])"
    by (simp add: run published_sentinel)
  moreover have "requested_label sid =
      (case sid of None \<Rightarrow> ''unknown'' | Some n \<Rightarrow> if n = 0 then ''unknown'' else str_int n)"
    by (simp add: requested_label_def split: option.splits)
  ultimately show ?thesis
    using ex run by blast
qed

text \<open>
  The statement at a timeout for server 7, at an output that is no JSON with no server
  requested, and at an explicit error with a non-zero exit status for server 7.
\<close>

theorem failed_attempt_publishes_sentinel_witness:
  "failed_attempt (example_host [TimeoutExpired] None) TimeoutExpired \<and>
   published (snd (runTest (example_host [TimeoutExpired] None) (Some 7) (initial 0))) ''7'' =
     (Some 0, Some 0, Some 0, Some 0, Some 0, Some []) \<and>
   failed_attempt (example_host [Completed raw_text] None) (Completed raw_text) \<and>
   published (snd (runTest (example_host [Completed raw_text] None) None (initial 0)))
       ''unknown'' =
     (Some 0, Some 0, Some 0, Some 0, Some 0, Some []) \<and>
   failed_attempt (example_host [CalledProcessError raw_error] None)
     (CalledProcessError raw_error) \<and>
   published
       (snd (runTest (example_host [CalledProcessError raw_error] None) (Some 7) (initial 0)))
       ''7'' =
     (Some 0, Some 0, Some 0, Some 0, Some 0, Some [])"
proof -
  have a: "failed_attempt (example_host [TimeoutExpired] None) TimeoutExpired"
    by (simp add: failed_attempt_def)
  have b: "failed_attempt (example_host [Completed raw_text] None) (Completed raw_text)"
    by (simp add: failed_attempt_def failed_output_def example_host_fields
        example_loads_values)
  have c: "failed_attempt (example_host [CalledProcessError raw_error] None)
      (CalledProcessError raw_error)"
    by (simp add: failed_attempt_def failed_output_def example_host_fields
        example_loads_values json_error_def error_payload_def)
  show ?thesis
    using a b c
      failed_attempt_publishes_sentinel
        [of "example_host [TimeoutExpired] None" 90 "initial 0" "Some 7"]
      failed_attempt_publishes_sentinel
        [of "example_host [Completed raw_text] None" 90 "initial 0" None]
      failed_attempt_publishes_sentinel
        [of "example_host [CalledProcessError raw_error] None" 90 "initial 0" "Some 7"]
    by (simp add: example_host_fields initial_def requested_label_def str_int_7)
qed

text \<open>
  C3 as the specification states it has the label be the requested identifier whenever
  one was configured. With \<^verbatim>\<open>SPEEDTEST_SERVER=0\<close> and a tool that times out, the scrape
  runs the tool once for the identifier 0; nothing is published under the label \<^verbatim>\<open>0\<close>
  and the sentinel is under \<^verbatim>\<open>unknown\<close>.
\<close>

theorem requested_zero_label_counterexample:
  "environ (example_host [TimeoutExpired] (Some ''0'')) ''SPEEDTEST_SERVER'' = Some ''0'' \<and>
   fst (updateResults (example_host [TimeoutExpired] (Some ''0'')) 1 2 (initial 0)) = Inr () \<and>
   invoked (snd (updateResults (example_host [TimeoutExpired] (Some ''0'')) 1 2 (initial 0))) =
     [(build_cmd (Some 0), 90)] \<and>
   published (snd (updateResults (example_host [TimeoutExpired] (Some ''0'')) 1 2 (initial 0)))
       ''0'' =
     (None, None, None, None, None, None) \<and>
   published (snd (updateResults (example_host [TimeoutExpired] (Some ''0'')) 1 2 (initial 0)))
       ''unknown'' =
     (Some 0, Some 0, Some 0, Some 0, Some 0, Some [])"
  by (simp add: updateResults_example_zero example_host_fields)
     (simp add: published_def failure_sentinel_def logging_def started_def initial_def)

section \<open>The cache\<close>

text \<open>
  C4, as amended. \<open>updateResults\<close> refreshes when the clock reading is later than
  \<^verbatim>\<open>cache_until\<close>, and serves the cache when it is not. \<^verbatim>\<open>cache_until\<close> is the epoch when
  the module is loaded. With a TTL of 0, a scrape that finds the cache stale runs the
  refresh, and under a configuration that reaches the tool it runs the tool anew;
  afterwards \<^verbatim>\<open>cache_until\<close> is the clock reading that ended the refresh when the scrape
  completed, and what it was before when the scrape raised. A next scrape whose clock
  reading is later than \<^verbatim>\<open>cache_until\<close> refreshes in the same way and runs the tool
  anew; a next scrape whose clock reading is not later (the same reading, or a clock
  that was set back) returns at once with the state as it is and runs nothing.
\<close>

theorem zero_ttl_refreshes_when_clock_advanced:
  assumes "cache_seconds s = 0" and "cache_until s < t1"
    and "s1 = snd (updateResults h t1 t1' s)"
  shows "(\<forall>s0. module_init h = Inr s0 \<longrightarrow> cache_until s0 = 0) \<and>
         updateResults h t1 t1' s = seq (refresh h s) (assign_cache_until h t1') \<and>
         (tool_reachable h \<longrightarrow> length (invoked s) < length (invoked s1)) \<and>
         cache_seconds s1 = 0 \<and>
         cache_until s1 =
           (case fst (updateResults h t1 t1' s) of
              Inl e \<Rightarrow> cache_until s
            | Inr u \<Rightarrow> t1') \<and>
         (cache_until s1 < t2 \<longrightarrow>
            updateResults h t2 t2' s1 = seq (refresh h s1) (assign_cache_until h t2') \<and>
            (tool_reachable h \<longrightarrow>
               length (invoked s1) < length (invoked (snd (updateResults h t2 t2' s1))))) \<and>
         (t2 \<le> cache_until s1 \<longrightarrow>
            updateResults h t2 t2' s1 = (Inr (), s1) \<and>
            invoked (snd (updateResults h t2 t2' s1)) = invoked s1)"
proof -
  have first: "updateResults h t1 t1' s = seq (refresh h s) (assign_cache_until h t1')"
    using assms(2) by (rule updateResults_stale)
  have ttl: "cache_seconds s1 = 0"
    using updateResults_cache_until(2) [OF assms(2), of h t1'] assms(1,3) by simp
  have valid: "cache_until s1 =
      (case fst (updateResults h t1 t1' s) of Inl e \<Rightarrow> cache_until s | Inr u \<Rightarrow> t1')"
    using updateResults_cache_until(1) [OF assms(2), of h t1'] assms(1,3)
    by (cases "fst (updateResults h t1 t1' s)") simp_all
  have one: "length (invoked s) < length (invoked s1)" if "tool_reachable h"
    using refresh_invokes [OF that, of s] updateResults_invoked [OF assms(2), of h t1']
      assms(3)
    by simp
  have stale: "updateResults h t2 t2' s1 = seq (refresh h s1) (assign_cache_until h t2') \<and>
      (tool_reachable h \<longrightarrow>
         length (invoked s1) < length (invoked (snd (updateResults h t2 t2' s1))))"
    if "cache_until s1 < t2"
    using updateResults_stale [OF that, of h t2'] updateResults_invoked [OF that, of h t2']
      refresh_invokes [of h s1]
    by simp
  have fresh: "updateResults h t2 t2' s1 = (Inr (), s1) \<and>
      invoked (snd (updateResults h t2 t2' s1)) = invoked s1"
    if "t2 \<le> cache_until s1"
    using that by (simp add: updateResults_fresh)
  have "cache_until s0 = 0" if "module_init h = Inr s0" for s0
    using that
    by (auto simp: module_init_def and_then_def initial_def split: option.splits sum.splits)
  then show ?thesis
    using first ttl valid one stale fresh by blast
qed

text \<open>
  The statement at the example host, after a first scrape at the clock readings 1 and
  2: a next scrape at the reading 3 runs the tool a second time, and a next scrape at
  the reading 2 runs nothing.
\<close>

theorem zero_ttl_refreshes_when_clock_advanced_witness:
  "module_init log_after_result = Inr (initial 0) \<and>
   cache_seconds (initial 0) = 0 \<and> cache_until (initial 0) < 1 \<and>
   tool_reachable log_after_result \<and>
   cache_until measured = 2 \<and>
   length (invoked (initial 0)) < length (invoked measured) \<and>
   length (invoked measured) <
     length (invoked (snd (updateResults log_after_result 3 4 measured))) \<and>
   updateResults log_after_result 2 4 measured = (Inr (), measured)"
proof -
  have a: "cache_seconds (initial 0) = 0" and b: "cache_until (initial 0) < 1"
    by (simp_all add: initial_def)
  have c: "tool_reachable log_after_result"
    by (simp add: tool_reachable_def returns_def log_after_result_def example_host_fields
        example_int_of_str)
  have e: "module_init log_after_result = Inr (initial 0)"
    by (simp add: module_init_def and_then_def log_after_result_def example_host_def)
  have f: "cache_until measured = 2"
    using first_request by simp
  have g: "cache_until measured < 3" "(2::int) \<le> cache_until measured"
    using f by simp_all
  show ?thesis
    using zero_ttl_refreshes_when_clock_advanced [OF a b measured_def, of 3 4]
      zero_ttl_refreshes_when_clock_advanced [OF a b measured_def, of 2 4]
      a b c e f g
    by blast
qed

text \<open>
  C4 as the specification states it has every scrape stale when the TTL is 0. Let the
  first scrape on the example host end its refresh at the clock reading 2, so that
  \<^verbatim>\<open>cache_until\<close> is 2, and let the next scrape read the clock at 2 again: the code
  tests \<^verbatim>\<open>now() > cache_until\<close>, which is false, and the scrape is served from the cache
  without running the tool, although the configuration reaches the tool.
\<close>

theorem equal_clock_reading_counterexample:
  "cache_seconds measured = 0 \<and>
   cache_until measured = 2 \<and>
   tool_reachable log_after_result \<and>
   updateResults log_after_result 2 5 measured = (Inr (), measured) \<and>
   invoked (snd (updateResults log_after_result 2 5 measured)) = invoked measured \<and>
   invoked measured = [(build_cmd (Some 7), 90)]"
proof -
  have "cache_seconds measured = 0"
    using updateResults_cache_until(2) [of "initial 0" 1 log_after_result 2]
    by (simp add: measured_def initial_def)
  moreover have "tool_reachable log_after_result"
    by (simp add: tool_reachable_def returns_def log_after_result_def example_host_fields
        example_int_of_str)
  moreover have "updateResults log_after_result 2 5 measured = (Inr (), measured)"
    using first_request by (simp add: updateResults_fresh)
  ultimately show ?thesis
    using first_request by simp
qed

text \<open>
  C5. After a scrape that refreshed (it found the cache stale and completed), with a
  TTL of \<open>N\<close> seconds, \<^verbatim>\<open>cache_until\<close> is the end of that refresh plus \<open>N\<close> seconds, and a
  scrape whose clock reading is not later than that returns with the state as it was:
  the published values are the same and the tool is not run. (The statement holds for
  every \<open>N\<close>; for \<open>N > 0\<close> it covers the requests that arrive within \<open>N\<close> seconds.)
\<close>

theorem fresh_request_serves_cache:
  assumes "cache_until s < t1"
    and "updateResults h t1 t1' s = (Inr (), s1)"
    and "cache_seconds s = N"
    and "t2 \<le> t1' + N * 1000000"
  shows "cache_until s1 = t1' + N * 1000000 \<and>
         updateResults h t2 t2' s1 = (Inr (), s1) \<and>
         published (snd (updateResults h t2 t2' s1)) = published s1 \<and>
         invoked (snd (updateResults h t2 t2' s1)) = invoked s1"
proof -
  have "cache_until s1 = t1' + N * 1000000"
    using updateResults_cache_until(1) [OF assms(1), of h t1'] assms(2,3) by simp
  moreover from this have "updateResults h t2 t2' s1 = (Inr (), s1)"
    using assms(4) by (simp add: updateResults_fresh)
  ultimately show ?thesis
    by simp
qed

text \<open>
  The statement with a TTL of 60 seconds: a scrape 60 seconds after the refresh still
  serves the measurement and the one invocation.
\<close>

theorem fresh_request_serves_cache_witness:
  "cache_until (initial 60) < 1 \<and>
   fst (updateResults log_after_result 1 2 (initial 60)) = Inr () \<and>
   cache_seconds (initial 60) = 60 \<and>
   updateResults log_after_result 60000002 60000003
       (snd (updateResults log_after_result 1 2 (initial 60))) =
     (Inr (), snd (updateResults log_after_result 1 2 (initial 60))) \<and>
   published (snd (updateResults log_after_result 60000002 60000003
       (snd (updateResults log_after_result 1 2 (initial 60))))) ''7'' =
     (Some 1, Some 5.5, Some 1, Some 800, Some 400,
      Some [(''id'', JStr ''7''), (''name'', JStr ''Acme''), (''location'', JStr ''Oslo''),
            (''country'', JStr ''Norway'')]) \<and>
   invoked (snd (updateResults log_after_result 60000002 60000003
       (snd (updateResults log_after_result 1 2 (initial 60))))) = [(build_cmd (Some 7), 90)]"
proof -
  have a: "cache_until (initial 60) < 1" and b: "cache_seconds (initial 60) = 60"
    by (simp_all add: initial_def)
  have c: "updateResults log_after_result 1 2 (initial 60) =
      (Inr (), snd (updateResults log_after_result 1 2 (initial 60)))"
    using first_scrape [of 60]
    by (cases "updateResults log_after_result 1 2 (initial 60)") simp_all
  have d: "(60000002::int) \<le> 2 + 60 * 1000000"
    by simp
  show ?thesis
    using fresh_request_serves_cache [OF a c b d, of 60000003] a b first_scrape [of 60]
    by simp
qed

section \<open>The loop over the targets\<close>

text \<open>
  C6, as amended. The loop of \<open>updateResults\<close> takes the entries of the target list
  in order. An attempt for which \<open>execTest\<close> returns no result (a failed attempt) is
  published as the failure sentinel under the label of the request, and the loop goes
  on with the remaining entries from there. Nothing catches an exception: one that is
  raised during an attempt ends the loop and the request with the state of that
  moment. When every entry converts to an integer and nothing is raised during any
  attempt (the tool times out, its output does not decode, or the payload is handled
  quietly; for a result this asks for every member that is read, a server record that
  \<^verbatim>\<open>Info.info\<close> accepts and gauge values that \<^verbatim>\<open>float\<close> converts, which an integer beyond
  the range of a double is not), the loop runs the tool once for each entry, in the
  order of the list. When moreover the new \<^verbatim>\<open>cache_until\<close> is in the range of a
  \<^verbatim>\<open>datetime\<close>, \<open>updateResults\<close> returns.
\<close>

theorem failed_target_does_not_stop_the_others:
  "(\<forall>x n s1. int_of_str h x = Some n \<and> execTest h (Some n) s = (Inr None, s1) \<longrightarrow>
      run_targets h (x # xs) s =
        run_targets h xs (failure_sentinel (requested_label (Some n)) s1)) \<and>
   (\<forall>x n e s1. int_of_str h x = Some n \<and> runTest h (Some n) s = (Inl e, s1) \<longrightarrow>
      run_targets h (x # xs) s = (Inl e, s1)) \<and>
   (\<forall>t. timeout_of h = Inr t \<and> (\<forall>i cmd. quiet_attempt h (check_output h i cmd t)) \<and>
        list_all (\<lambda>x. int_of_str h x \<noteq> None) xs \<longrightarrow>
      fst (run_targets h xs s) = Inr () \<and>
      invoked (snd (run_targets h xs s)) =
        invoked s @ map (\<lambda>x. (build_cmd (int_of_str h x), t)) xs) \<and>
   (\<forall>t. timeout_of h = Inr t \<and> (\<forall>i cmd. quiet_attempt h (check_output h i cmd t)) \<and>
        targets_convert h \<and> returns (datetime_add h now' (cache_seconds s)) \<longrightarrow>
      fst (updateResults h now now' s) = Inr ())"
proof -
  have "run_targets h (x # xs) s =
      run_targets h xs (failure_sentinel (requested_label (Some n)) s1)"
    if "int_of_str h x = Some n \<and> execTest h (Some n) s = (Inr None, s1)" for x n s1
    using that runTest_failed [of h "Some n" s s1] by (simp add: seq_def)
  moreover have "run_targets h (x # xs) s = (Inl e, s1)"
    if "int_of_str h x = Some n \<and> runTest h (Some n) s = (Inl e, s1)" for x n e s1
    using that by (simp add: seq_def)
  ultimately show ?thesis
    using run_targets_quiet [of h _ xs s]
      updateResults_quiet [where h = h and now = now and now' = now' and s = s]
    by blast
qed

text \<open>
  The statement at a scrape for the targets 1 and 2 where the tool times out for the
  first and reports a result (of server 7) for the second.
\<close>

theorem failed_target_does_not_stop_the_others_witness:
  "timeout_of timeout_then_result = Inr 90 \<and>
   targets_convert timeout_then_result \<and>
   returns (datetime_add timeout_then_result 2 (cache_seconds (initial 0))) \<and>
   fst (updateResults timeout_then_result 1 2 (initial 0)) = Inr () \<and>
   fst (run_targets timeout_then_result [''1'', ''2''] (initial 0)) = Inr () \<and>
   invoked (snd (run_targets timeout_then_result [''1'', ''2''] (initial 0))) =
     [(build_cmd (Some 1), 90), (build_cmd (Some 2), 90)] \<and>
   published (snd (updateResults timeout_then_result 1 2 (initial 0))) ''1'' =
     (Some 0, Some 0, Some 0, Some 0, Some 0, Some []) \<and>
   published (snd (updateResults timeout_then_result 1 2 (initial 0))) ''7'' =
     (Some 1, Some 5.5, Some 1, Some 800, Some 400,
      Some [(''id'', JStr ''7''), (''name'', JStr ''Acme''), (''location'', JStr ''Oslo''),
            (''country'', JStr ''Norway'')])"
proof -
  have c: "targets_convert timeout_then_result"
    by (simp add: targets_convert_def timeout_then_result_fields)
  have l: "list_all (\<lambda>x. int_of_str timeout_then_result x \<noteq> None) [''1'', ''2'']"
    by (simp add: timeout_then_result_fields)
  have q: "\<forall>i cmd. quiet_attempt timeout_then_result (check_output timeout_then_result i cmd 90)"
    using timeout_then_result_quiet by blast
  note orch = failed_target_does_not_stop_the_others
    [where h = timeout_then_result and s = "initial 0" and xs = "[''1'', ''2'']"
       and now = 1 and now' = 2]
  have d: "returns (datetime_add timeout_then_result 2 (cache_seconds (initial 0)))"
    by (simp add: returns_def datetime_add_def timedelta_ok_def datetime_ok_def
        timeout_then_result_fields initial_def)
  have "fst (updateResults timeout_then_result 1 2 (initial 0)) = Inr ()"
    using orch c d q timeout_then_result_fields(1) by blast
  moreover have "fst (run_targets timeout_then_result [''1'', ''2''] (initial 0)) = Inr () \<and>
      invoked (snd (run_targets timeout_then_result [''1'', ''2''] (initial 0))) =
        invoked (initial 0) @
        map (\<lambda>x. (build_cmd (int_of_str timeout_then_result x), 90)) [''1'', ''2'']"
    using orch l q timeout_then_result_fields(1) by blast
  ultimately show ?thesis
    using c d timeout_then_result_scrape
    by (simp add: timeout_then_result_fields initial_def)
qed

text \<open>
  C6 as the specification states it has every failure of one attempt caught and
  turned into the failure sentinel. With the targets 1 and 2, let the tool report for
  target 1 a payload of type \<^verbatim>\<open>result\<close> without a \<^verbatim>\<open>server\<close> member:
  \<^verbatim>\<open>result.server_id\<close> raises \<^verbatim>\<open>KeyError\<close> in \<open>runTest\<close>, the request ends with it, the
  tool is never run for target 2, no instrument is written and \<^verbatim>\<open>cache_until\<close> stays.
\<close>

theorem malformed_result_aborts_counterexample:
  "environ truncated_then_result ''SPEEDTEST_SERVER'' = Some ''1,2'' \<and>
   fst (updateResults truncated_then_result 1 2 (initial 0)) = Inl (KeyError ''server'') \<and>
   invoked (snd (updateResults truncated_then_result 1 2 (initial 0))) =
     [(build_cmd (Some 1), 90)] \<and>
   published (snd (updateResults truncated_then_result 1 2 (initial 0))) ''1'' =
     (None, None, None, None, None, None) \<and>
   published (snd (updateResults truncated_then_result 1 2 (initial 0))) ''7'' =
     (None, None, None, None, None, None) \<and>
   cache_until (snd (updateResults truncated_then_result 1 2 (initial 0))) = 0"
  by (simp add: truncated_then_result_scrape truncated_then_result_fields)
     (simp add: started_def initial_def published_def)

section \<open>A non-zero exit status\<close>

text \<open>
  C7. When the external process exits with a non-zero status (\<^verbatim>\<open>CalledProcessError\<close>) and
  its captured output decodes as JSON, \<open>execTest\<close> goes on with the decoded payload
  exactly as it does after exit status 0 with the same output, and a payload of type
  \<^verbatim>\<open>result\<close> without an \<^verbatim>\<open>error\<close> member yields a \<open>Result\<close>. Only when the output does not
  decode does \<open>execTest\<close> return \<^verbatim>\<open>None\<close> at once: the output is dropped and, when it is
  not empty, one fixed line is logged.
\<close>

theorem nonzero_exit_output_is_parsed:
  assumes "timeout_of h = Inr t"
    and "check_output h (length (invoked s)) (build_cmd sid) t = CalledProcessError raw"
  shows "(\<forall>d. json_loads h raw = Some d \<longrightarrow>
            execTest h sid s = execTest_payload d (started sid t s)) \<and>
         (\<forall>h'. json_loads h raw \<noteq> None \<and> json_loads h' = json_loads h \<and>
               timeout_of h' = Inr t \<and>
               check_output h' (length (invoked s)) (build_cmd sid) t = Completed raw \<longrightarrow>
            execTest h sid s = execTest h' sid s) \<and>
         (\<forall>kvs. json_loads h raw = Some (JDict kvs) \<and> map_of kvs ''error'' = None \<and>
                map_of kvs ''type'' = Some (JStr ''result'') \<longrightarrow>
            execTest h sid s = (Inr (Some (Result (JDict kvs))), started sid t s)) \<and>
         (json_loads h raw = None \<longrightarrow>
            execTest h sid s =
              (Inr None,
               if raw \<noteq> []
               then logging
                      (Log_error ''Speedtest CLI Error occurred that was not in JSON format'')
                      (started sid t s)
               else started sid t s))"
proof -
  note e = execTest_called_process_error [OF assms]
  have "execTest h sid s = execTest h' sid s"
    if "json_loads h raw \<noteq> None \<and> json_loads h' = json_loads h \<and>
        timeout_of h' = Inr t \<and>
        check_output h' (length (invoked s)) (build_cmd sid) t = Completed raw" for h'
    using that e by (auto simp: execTest_completed split: option.splits)
  moreover have "execTest h sid s = (Inr (Some (Result (JDict kvs))), started sid t s)"
    if "json_loads h raw = Some (JDict kvs) \<and> map_of kvs ''error'' = None \<and>
        map_of kvs ''type'' = Some (JStr ''result'')" for kvs
    using that e by (simp add: payload_result)
  ultimately show ?thesis
    using e by (auto split: option.splits)
qed

text \<open>
  The statement at a result payload and at a usage text, both with a non-zero exit
  status.
\<close>

theorem nonzero_exit_output_is_parsed_witness:
  "execTest (example_host [CalledProcessError raw_result] None) None (initial 0) =
     (Inr (Some (Result json_result)), started None 90 (initial 0)) \<and>
   execTest (example_host [CalledProcessError raw_result] None) None (initial 0) =
     execTest (example_host [Completed raw_result] None) None (initial 0) \<and>
   execTest (example_host [CalledProcessError raw_text] None) None (initial 0) =
     (Inr None,
      logging (Log_error ''Speedtest CLI Error occurred that was not in JSON format'')
        (started None 90 (initial 0)))"
proof -
  let ?h = "example_host [CalledProcessError raw_result] None"
  let ?h' = "example_host [Completed raw_result] None"
  let ?g = "example_host [CalledProcessError raw_text] None"
  have len: "length (invoked (initial 0)) = 0"
    by (simp add: initial_def)
  have h: "check_output ?h (length (invoked (initial 0))) (build_cmd None) 90 =
      CalledProcessError raw_result"
    by (simp add: example_host_fields len)
  have h': "check_output ?h' (length (invoked (initial 0))) (build_cmd None) 90 =
      Completed raw_result"
    by (simp add: example_host_fields len)
  have g: "check_output ?g (length (invoked (initial 0))) (build_cmd None) 90 =
      CalledProcessError raw_text"
    by (simp add: example_host_fields len)
  note parsed = nonzero_exit_output_is_parsed [OF example_host_fields(4) h]
  note refused = nonzero_exit_output_is_parsed [OF example_host_fields(4) g]
  have "execTest ?h None (initial 0) =
      (Inr (Some (Result json_result)), started None 90 (initial 0))"
    unfolding json_result_def
    by (rule parsed [THEN conjunct2, THEN conjunct2, THEN conjunct1, rule_format])
       (simp add: example_host_fields example_loads_values [unfolded json_result_def])
  moreover have "execTest ?h None (initial 0) = execTest ?h' None (initial 0)"
  proof -
    have "json_loads ?h raw_result \<noteq> None \<and> json_loads ?h' = json_loads ?h \<and>
        timeout_of ?h' = Inr 90 \<and>
        check_output ?h' (length (invoked (initial 0))) (build_cmd None) 90 =
          Completed raw_result"
      using h' by (simp add: example_host_fields example_loads_values)
    with parsed show ?thesis
      by blast
  qed
  moreover have "execTest ?g None (initial 0) =
      (Inr None,
       logging (Log_error ''Speedtest CLI Error occurred that was not in JSON format'')
         (started None 90 (initial 0)))"
  proof -
    have "raw_text \<noteq> []"
      by (simp add: raw_text_def)
    then show ?thesis
      using refused [THEN conjunct2, THEN conjunct2, THEN conjunct2]
      by (simp add: example_host_fields example_loads_values)
  qed
  ultimately show ?thesis
    by simp
qed

section \<open>An identifier equal to 0\<close>

text \<open>
  C10. A requested target identifier equal to 0 is treated as if none were requested:
  the command line carries no \<^verbatim>\<open>--server-id\<close> flag, \<open>execTest\<close> and \<open>runTest\<close> do for
  0 exactly what they do for \<^verbatim>\<open>None\<close>, and when the attempt fails the failure sentinel is
  written under the label \<^verbatim>\<open>unknown\<close>, while what is published under the label \<^verbatim>\<open>0\<close>
  stays as it was.
\<close>

theorem zero_identifier_is_unset:
  "build_cmd (Some 0) =
     [''speedtest'', ''--format=json-pretty'', ''--progress=no'',
      ''--accept-license'', ''--accept-gdpr''] \<and>
   execTest h (Some 0) s = execTest h None s \<and>
   runTest h (Some 0) s = runTest h None s \<and>
   (\<forall>s1. execTest h (Some 0) s = (Inr None, s1) \<longrightarrow>
      runTest h (Some 0) s = (Inr (), failure_sentinel ''unknown'' s1) \<and>
      published (snd (runTest h (Some 0) s)) (str_int 0) = published s (str_int 0))"
proof -
  have cmd: "build_cmd (Some 0) =
     [''speedtest'', ''--format=json-pretty'', ''--progress=no'',
      ''--accept-license'', ''--accept-gdpr'']"
    by (simp add: build_cmd_def)
  have run: "runTest h (Some 0) s = runTest h None s"
    by (simp add: runTest_def execTest_zero label_of_zero split: prod.splits sum.splits)
  have failed: "runTest h (Some 0) s = (Inr (), failure_sentinel ''unknown'' s1) \<and>
      published (snd (runTest h (Some 0) s)) (str_int 0) = published s (str_int 0)"
    if ex: "execTest h (Some 0) s = (Inr None, s1)" for s1
  proof -
    have r: "runTest h (Some 0) s = (Inr (), failure_sentinel ''unknown'' s1)"
      using runTest_failed [OF ex] by (simp add: requested_label_def)
    have "published s1 = published s"
      using published_execTest [OF ex] .
    then show ?thesis
      using r by (simp add: published_sentinel str_int_0)
  qed
  show ?thesis
    using cmd run failed execTest_zero [of h s] by blast
qed

text \<open>The statement at a timed-out attempt for \<^verbatim>\<open>SPEEDTEST_SERVER=0\<close>.\<close>

theorem zero_identifier_is_unset_witness:
  "execTest (example_host [TimeoutExpired] (Some ''0'')) (Some 0) (initial 0) =
     (Inr None,
      logging (Log_error ''Speedtest CLI process took too long to complete and was killed.'')
        (started None 90 (initial 0))) \<and>
   runTest (example_host [TimeoutExpired] (Some ''0'')) (Some 0) (initial 0) =
     (Inr (), failure_sentinel ''unknown''
        (logging (Log_error ''Speedtest CLI process took too long to complete and was killed.'')
           (started None 90 (initial 0))))"
proof -
  have ex: "execTest (example_host [TimeoutExpired] (Some ''0'')) (Some 0) (initial 0) =
     (Inr None,
      logging (Log_error ''Speedtest CLI process took too long to complete and was killed.'')
        (started None 90 (initial 0)))"
    by (simp add: execTest_zero execTest_timeout example_host_fields initial_def)
  have "\<forall>s1. execTest (example_host [TimeoutExpired] (Some ''0'')) (Some 0) (initial 0) =
            (Inr None, s1) \<longrightarrow>
          runTest (example_host [TimeoutExpired] (Some ''0'')) (Some 0) (initial 0) =
            (Inr (), failure_sentinel ''unknown'' s1)"
    using zero_identifier_is_unset
      [of "example_host [TimeoutExpired] (Some ''0'')" "initial 0"]
    by blast
  with ex show ?thesis
    by blast
qed

section \<open>The megabit text\<close>




end
